theory Spec2Isabelle
  imports Complex_Main "HOL-Library.Word" "HOL-Library.Sublist"
begin

section \<open>The voice assistant of desktop\_assistant\_vosk.py\<close>

text \<open>
  The program is one class, \<open>VoiceAssistantApp\<close>, that glues a speech recognizer, an audio
  stream, a speech synthesizer, an HTTP client and a GUI together. The embedding keeps the
  object's attributes in a record, passes it explicitly through every method, and makes
  each answer of an external library an input of the model: one record of answers per
  iteration of the capture loop. The calls the program issues to the outside (recognizer
  calls, HTTP requests, console output, audio played) are appended to lists kept beside
  the attributes, so that what the program did can be read off the final state.

  Exceptions are values. A call whose answer comes from the outside (reading audio,
  recognizing, decoding JSON, the HTTP request, the synthesizer) has an outcome of type
  \<open>exn + 'a\<close>. Calls that only command the GUI, the queue, the clock or
  \<open>recognizer.Reset()\<close> are taken to return normally. Since Python keeps the mutations made
  before an exception, a block that may raise returns its outcome together with the state
  reached at that point.
\<close>

subsection \<open>Configuration (lines 13 to 24)\<close>

definition WAKE_WORD :: string where
  "WAKE_WORD = ''computer''"

definition COMMAND_TIMEOUT :: real where
  "COMMAND_TIMEOUT = 5.0"

definition LLM_ENDPOINT :: string where
  "LLM_ENDPOINT = ''http://localhost:11434/''"

definition LLM_MODEL :: string where
  "LLM_MODEL = ''llama3''"

definition apostrophe :: char where
  "apostrophe = CHR 0x27"

definition newline :: char where
  "newline = CHR 0x0A"

subsection \<open>Values exchanged with the libraries\<close>

text \<open>
  An audio block is the int16 sample array that \<open>stream.read\<close> returns; the recognizer is
  fed the bytes of such an array, recorded here as the array itself. A decoded JSON object
  is a dictionary whose fields are strings, which is what the recognizer and the LLM
  server answer with; \<open>dict_get\<close> is Python's \<open>d.get(key, default)\<close>.
\<close>

type_synonym block = "16 word list"

type_synonym json_obj = "string \<rightharpoonup> string"

definition dict_get :: "json_obj \<Rightarrow> string \<Rightarrow> string \<Rightarrow> string" where
  "dict_get d k dflt = (case d k of None \<Rightarrow> dflt | Some v \<Rightarrow> v)"

text \<open>
  Exceptions: \<open>requests.exceptions.RequestException\<close> and its subclasses are the only ones
  the program catches by class; every other exception is an \<open>OtherException\<close>. The string
  is \<open>str(e)\<close>.
\<close>

datatype exn = RequestException string | OtherException string

fun str_exn :: "exn \<Rightarrow> string" where
  "str_exn (RequestException m) = m"
| "str_exn (OtherException m) = m"

text \<open>\<open>np.concatenate\<close> raises ValueError on an empty sequence of arrays.\<close>

definition np_concatenate :: "block list \<Rightarrow> exn + block" where
  "np_concatenate bs =
     (if bs = [] then Inl (OtherException ''need at least one array to concatenate'')
      else Inr (concat bs))"

datatype rec_call = Create | AcceptWaveform block | PartialResult | Result | Reset

record llm_payload =
  model :: string
  prompt :: string
  stream :: bool

record llm_request =
  endpoint :: string
  json_payload :: llm_payload
  timeout :: nat

record http_response =
  status_code :: nat
  reason :: string
  url :: string
  json_body :: "exn + json_obj"

datatype playback = PlayBegin string | PlayEnd string

subsection \<open>The application object\<close>

record app =
  is_listening :: bool
  in_command_window :: bool
  last_word_time :: real
  command_audio_buffer :: "block list"
  status_label :: string
  log_textbox :: string
  toggle_button :: string
  speak_queue :: "string list"
  engine_pending :: "string list"
  audio_out :: "playback list"
  console :: "string list"
  recognizer_calls :: "rec_call list"
  llm_requests :: "llm_request list"
  stream_open :: bool

text \<open>The state that \<open>__init__\<close> builds (lines 27 to 55).\<close>

definition init_app :: app where
  "init_app = \<lparr> is_listening = False, in_command_window = False, last_word_time = 0,
     command_audio_buffer = [], status_label = ''Status: Idle'', log_textbox = [],
     toggle_button = ''Start Listening'', speak_queue = [], engine_pending = [],
     audio_out = [], console = [], recognizer_calls = [], llm_requests = [],
     stream_open = False \<rparr>"

subsection \<open>Speech, status and log (lines 58 to 81)\<close>

definition speak :: "string \<Rightarrow> app \<Rightarrow> app" where
  "speak msg s = s\<lparr>speak_queue := speak_queue s @ [msg]\<rparr>"

definition update_status :: "string \<Rightarrow> app \<Rightarrow> app" where
  "update_status msg s = s\<lparr>status_label := ''Status: '' @ msg\<rparr>"

definition log_message :: "string \<Rightarrow> bool \<Rightarrow> app \<Rightarrow> app" where
  "log_message message speak_message s =
     (let s1 = s\<lparr>log_textbox := log_textbox s @ message @ [newline]\<rparr>
      in if speak_message then speak message s1 else s1)"

text \<open>
  The speaker thread (lines 61 to 69). One iteration takes the head of the queue (an
  empty queue blocks \<open>get\<close>), hands it to the engine with \<open>say\<close>, and calls
  \<open>runAndWait\<close>, which returns once every utterance handed to the engine has been played.
  An exception of either call is printed and the loop goes on. The loop never ends by
  itself: the list of engine answers is its fuel, one element per iteration.
\<close>

record tts_env =
  say_result :: "exn + unit"
  run_result :: "exn + unit"

definition speaker_iteration :: "tts_env \<Rightarrow> string \<Rightarrow> app \<Rightarrow> app" where
  "speaker_iteration e text_to_speak s =
     (case say_result e of
        Inl x \<Rightarrow> s\<lparr>console := console s @ [''Error in speaker thread: '' @ str_exn x]\<rparr>
      | Inr _ \<Rightarrow>
          (let s1 = s\<lparr>engine_pending := engine_pending s @ [text_to_speak]\<rparr>
           in case run_result e of
                Inl x \<Rightarrow> s1\<lparr>console := console s1 @ [''Error in speaker thread: '' @ str_exn x]\<rparr>
              | Inr _ \<Rightarrow>
                  s1\<lparr>audio_out := audio_out s1 @
                         concat (map (\<lambda>t. [PlayBegin t, PlayEnd t]) (engine_pending s1)),
                       engine_pending := []\<rparr>))"

fun speaker_thread_worker :: "tts_env list \<Rightarrow> app \<Rightarrow> app" where
  "speaker_thread_worker [] s = s"
| "speaker_thread_worker (e # es) s =
     (case speak_queue s of
        [] \<Rightarrow> s
      | text_to_speak # q \<Rightarrow>
          speaker_thread_worker es (speaker_iteration e text_to_speak (s\<lparr>speak_queue := q\<rparr>)))"

subsection \<open>Start and stop (lines 83 to 97)\<close>

definition start_listening :: "app \<Rightarrow> app" where
  "start_listening s = s\<lparr>is_listening := True, toggle_button := ''Stop Listening''\<rparr>"

definition stop_listening :: "app \<Rightarrow> app" where
  "stop_listening s =
     update_status ''Idle''
       (s\<lparr>is_listening := False, in_command_window := False,
          toggle_button := ''Start Listening''\<rparr>)"

definition toggle_listening :: "app \<Rightarrow> app" where
  "toggle_listening s = (if is_listening s then stop_listening s else start_listening s)"

subsection \<open>The LLM bridge (lines 157 to 186)\<close>

text \<open>
  \<open>Response.raise_for_status\<close> of the requests library, which line 169 relies on
  (its comment: bad status codes, 4xx or 5xx): it builds a message for those codes and,
  when there is one, raises an HTTPError, a RequestException, with that text.
  \<open>str_nat\<close> is the decimal notation of a number.
\<close>

definition digit_char :: "nat \<Rightarrow> char" where
  "digit_char n = ''0123456789'' ! n"

fun str_nat :: "nat \<Rightarrow> string" where
  "str_nat n = (if n < 10 then [digit_char n] else str_nat (n div 10) @ [digit_char (n mod 10)])"

declare str_nat.simps [simp del]

definition http_error_msg :: "http_response \<Rightarrow> string" where
  "http_error_msg r =
     (if 400 \<le> status_code r \<and> status_code r < 500 then
        str_nat (status_code r) @ '' Client Error: '' @ reason r @ '' for url: '' @ url r
      else if 500 \<le> status_code r \<and> status_code r < 600 then
        str_nat (status_code r) @ '' Server Error: '' @ reason r @ '' for url: '' @ url r
      else [])"

definition raise_for_status :: "http_response \<Rightarrow> exn + unit" where
  "raise_for_status r =
     (if http_error_msg r \<noteq> [] then Inl (RequestException (http_error_msg r)) else Inr ())"

text \<open>
  The body of the \<open>try\<close> of \<open>query_llm\<close> (lines 168 to 172), as a function of what the
  server does: the outcome of \<open>requests.post\<close>, then the status check, then
  \<open>response.json()\<close> and the lookup of the field.
\<close>

definition llm_try :: "exn + http_response \<Rightarrow> exn + string" where
  "llm_try post_result =
     (case post_result of
        Inl x \<Rightarrow> Inl x
      | Inr response \<Rightarrow>
          (case raise_for_status response of
             Inl x \<Rightarrow> Inl x
           | Inr _ \<Rightarrow>
               (case json_body response of
                  Inl x \<Rightarrow> Inl x
                | Inr response_json \<Rightarrow>
                    Inr (dict_get response_json ''response''
                           ''No response text found in LLM output.''))))"

definition query_llm :: "string \<Rightarrow> exn + http_response \<Rightarrow> app \<Rightarrow> (exn + string) \<times> app" where
  "query_llm prompt_text post_result s =
     (let s1 = log_message ''Sending query to LLM...'' False s;
          s2 = update_status ''Querying LLM...'' s1;
          payload = \<lparr> model = LLM_MODEL, prompt = prompt_text, stream = False \<rparr>;
          s3 = s2\<lparr>llm_requests := llm_requests s2 @
                 [\<lparr> endpoint = LLM_ENDPOINT, json_payload = payload, timeout = 60 \<rparr>]\<rparr>
      in case llm_try post_result of
           Inr reply \<Rightarrow> (Inr reply, s3)
         | Inl (RequestException m) \<Rightarrow>
             (let error_message = ''Error connecting to LLM: '' @ m
              in (Inr error_message, s3\<lparr>console := console s3 @ [error_message]\<rparr>))
         | Inl (OtherException m) \<Rightarrow> (Inl (OtherException m), s3))"

definition process_command :: "string \<Rightarrow> exn + http_response \<Rightarrow> app \<Rightarrow> (exn + unit) \<times> app" where
  "process_command command post_result s =
     (case query_llm command post_result s of
        (Inl x, s1) \<Rightarrow> (Inl x, s1)
      | (Inr response, s1) \<Rightarrow>
          if response \<noteq> [] then
            (Inr (), speak response (log_message (''LLM Response: '' @ response) False s1))
          else (Inr (), s1))"

subsection \<open>The capture loop (lines 100 to 154)\<close>

text \<open>
  What the outside answers during one iteration of the loop: the block read, the
  recognizer's answers, the three places where the clock is read, and the LLM server's
  answer should a command be dispatched.
\<close>

record iter_env =
  read_result :: "exn + block"
  accept_result :: "exn + bool"
  partial_result :: "exn + json_obj"
  time_at_121 :: real
  time_at_131 :: real
  time_at_148 :: real
  final_result :: "exn + json_obj"
  force_accept_result :: "exn + bool"
  post_result :: "exn + http_response"

definition listening_status :: string where
  "listening_status = ''Listening for '' @ [apostrophe] @ WAKE_WORD @ [apostrophe] @ ''...''"

definition call_recognizer :: "rec_call \<Rightarrow> app \<Rightarrow> app" where
  "call_recognizer c s = s\<lparr>recognizer_calls := recognizer_calls s @ [c]\<rparr>"

text \<open>Lines 124 to 130: the recognizer signalled a final result.\<close>

definition final_branch :: "iter_env \<Rightarrow> app \<Rightarrow> (exn + unit) \<times> app" where
  "final_branch e s =
     (let s1 = call_recognizer Result s
      in case final_result e of
           Inl x \<Rightarrow> (Inl x, s1)
         | Inr fr \<Rightarrow>
             (let command_text = dict_get fr ''text'' []
              in case (if command_text \<noteq> [] then
                         process_command command_text (post_result e)
                           (log_message (''> Query: '' @ command_text) False s1)
                       else (Inr (), s1)) of
                   (Inl x, s2) \<Rightarrow> (Inl x, s2)
                 | (Inr _, s2) \<Rightarrow>
                     (Inr (), update_status listening_status (s2\<lparr>in_command_window := False\<rparr>))))"

text \<open>Lines 132 to 144: no new word for longer than the timeout.\<close>

definition timeout_branch :: "iter_env \<Rightarrow> app \<Rightarrow> (exn + unit) \<times> app" where
  "timeout_branch e s =
     (let s1 = log_message ''Timeout reached, processing command...'' False s
      in case np_concatenate (command_audio_buffer s1) of
           Inl x \<Rightarrow> (Inl x, s1)
         | Inr full_command_audio \<Rightarrow>
             (let s2 = call_recognizer (AcceptWaveform full_command_audio) s1
              in case force_accept_result e of
                   Inl x \<Rightarrow> (Inl x, s2)
                 | Inr _ \<Rightarrow>
                     (let s3 = call_recognizer Result s2
                      in case final_result e of
                           Inl x \<Rightarrow> (Inl x, s3)
                         | Inr fr \<Rightarrow>
                             (let command_text = dict_get fr ''text'' []
                              in case (if command_text \<noteq> [] then
                                         process_command command_text (post_result e)
                                           (log_message (''> Query: '' @ command_text) False s3)
                                       else
                                         (Inr (), log_message
                                            ''I heard something, but could not understand.''
                                            True s3)) of
                                   (Inl x, s4) \<Rightarrow> (Inl x, s4)
                                 | (Inr _, s4) \<Rightarrow>
                                     (Inr (), update_status listening_status
                                        (s4\<lparr>in_command_window := False,
                                            command_audio_buffer := []\<rparr>))))))"

text \<open>Lines 147 to 152: the wake word was heard.\<close>

definition wake_branch :: "iter_env \<Rightarrow> app \<Rightarrow> app" where
  "wake_branch e s =
     call_recognizer Reset
       (log_message ([apostrophe] @ WAKE_WORD @ [apostrophe] @ '' detected.'') True
          (update_status ''Speak your query now...''
             (s\<lparr>in_command_window := True, last_word_time := time_at_148 e,
                command_audio_buffer := []\<rparr>)))"

text \<open>Lines 120 to 144: an iteration that starts inside the command window.\<close>

definition window_branch :: "iter_env \<Rightarrow> block \<Rightarrow> bool \<Rightarrow> string \<Rightarrow> app \<Rightarrow> (exn + unit) \<times> app" where
  "window_branch e data is_final partial_text s =
     (let s1 = s\<lparr>command_audio_buffer := command_audio_buffer s @ [data]\<rparr>;
          s2 = (if partial_text \<noteq> [] then s1\<lparr>last_word_time := time_at_121 e\<rparr> else s1)
      in if is_final then final_branch e s2
         else if time_at_131 e - last_word_time s2 > COMMAND_TIMEOUT then timeout_branch e s2
         else (Inr (), s2))"

text \<open>
  Lines 114 to 152, the body of the \<open>try\<close> inside the loop. \<open>WAKE_WORD in partial_text\<close>
  is the substring test, \<open>sublist\<close>.
\<close>

definition loop_try :: "iter_env \<Rightarrow> app \<Rightarrow> (exn + unit) \<times> app" where
  "loop_try e s =
     (case read_result e of
        Inl x \<Rightarrow> (Inl x, s)
      | Inr data \<Rightarrow>
          (let s1 = call_recognizer (AcceptWaveform data) s
           in case accept_result e of
                Inl x \<Rightarrow> (Inl x, s1)
              | Inr is_final \<Rightarrow>
                  (let s2 = call_recognizer PartialResult s1
                   in case partial_result e of
                        Inl x \<Rightarrow> (Inl x, s2)
                      | Inr pr \<Rightarrow>
                          (let partial_text = dict_get pr ''partial'' []
                           in if in_command_window s2
                              then window_branch e data is_final partial_text s2
                              else if sublist WAKE_WORD partial_text
                              then (Inr (), wake_branch e s2)
                              else (Inr (), s2)))))"

text \<open>Lines 113 to 154: one iteration, with the handler that logs any exception.\<close>

definition loop_iteration :: "iter_env \<Rightarrow> app \<Rightarrow> app" where
  "loop_iteration e s =
     (case loop_try e s of
        (Inl x, s1) \<Rightarrow> log_message (''Error during listening loop: '' @ str_exn x) True s1
      | (Inr _, s1) \<Rightarrow> s1)"

text \<open>
  \<open>stop_listening\<close> runs on the UI thread while the loop thread is inside an iteration:
  most of the time that thread waits in \<open>stream.read\<close> (line 114) or in \<open>requests.post\<close>
  (line 168), and nothing synchronizes the two. Line 94 clears \<open>is_listening\<close>, which the
  loop reads at line 112 only: the iteration that is running when line 94 lands is the
  last one. Lines 95 to 97 then assign \<open>in_command_window\<close>, the button and the status
  line, during that iteration or after it. Of these the iteration reads only
  \<open>in_command_window\<close>, once, at line 119, and writes only \<open>in_command_window\<close> and the
  status line, so all that matters is where lines 95 and 97 land among these accesses.

  \<open>loop_writes\<close> lists, in program order, what an iteration that read the flag from
  state \<open>s\<close> at line 119 writes to \<open>in_command_window\<close> and to the status line: lines 147
  and 150 after the wake word; line 159 when a transcript is dispatched, and lines 129
  and 130 (or 142 and 144) when the branch reaches its end. An exception ends the list.
\<close>

datatype stop_write = SetWindow bool | SetStatus string

fun apply_write :: "stop_write \<Rightarrow> app \<Rightarrow> app" where
  "apply_write (SetWindow b) s = s\<lparr>in_command_window := b\<rparr>"
| "apply_write (SetStatus msg) s = update_status msg s"

fun is_window_write :: "stop_write \<Rightarrow> bool" where
  "is_window_write (SetWindow b) = True"
| "is_window_write (SetStatus msg) = False"

fun is_status_write :: "stop_write \<Rightarrow> bool" where
  "is_status_write (SetWindow b) = False"
| "is_status_write (SetStatus msg) = True"

definition transcript_writes :: "iter_env \<Rightarrow> stop_write list" where
  "transcript_writes e =
     (case final_result e of
        Inl x \<Rightarrow> []
      | Inr fr \<Rightarrow>
          (let command_text = dict_get fr ''text'' []
           in if command_text \<noteq> [] then
                SetStatus ''Querying LLM...'' #
                (case llm_try (post_result e) of
                   Inl (OtherException m) \<Rightarrow> []
                 | _ \<Rightarrow> [SetWindow False, SetStatus listening_status])
              else [SetWindow False, SetStatus listening_status]))"

definition loop_writes :: "iter_env \<Rightarrow> app \<Rightarrow> stop_write list" where
  "loop_writes e s =
     (case read_result e of
        Inl x \<Rightarrow> []
      | Inr data \<Rightarrow>
          (case accept_result e of
             Inl x \<Rightarrow> []
           | Inr is_final \<Rightarrow>
               (case partial_result e of
                  Inl x \<Rightarrow> []
                | Inr pr \<Rightarrow>
                    (let partial_text = dict_get pr ''partial'' []
                     in if in_command_window s then
                          (if is_final then transcript_writes e
                           else if time_at_131 e -
                                   (if partial_text \<noteq> [] then time_at_121 e
                                    else last_word_time s) > COMMAND_TIMEOUT
                           then (case force_accept_result e of
                                   Inl x \<Rightarrow> []
                                 | Inr _ \<Rightarrow> transcript_writes e)
                           else [])
                        else if sublist WAKE_WORD partial_text
                        then [SetWindow True, SetStatus ''Speak your query now...'']
                        else []))))"

text \<open>
  The state once the last iteration and \<open>stop_listening\<close> are both through, \<open>t\<close> being the
  state the iteration alone leads to and \<open>ws\<close> its writes: line 95 landed after the first
  \<open>k95\<close> of them and line 97 after the first \<open>k97\<close>. The fields that \<open>stop_listening\<close>
  assigns hold what it assigned, except where a later write of the iteration has
  overwritten it.
\<close>

definition stop_overlay :: "nat \<Rightarrow> nat \<Rightarrow> stop_write list \<Rightarrow> app \<Rightarrow> app" where
  "stop_overlay k95 k97 ws t =
     fold apply_write (filter is_status_write (drop k97 ws))
       (fold apply_write (filter is_window_write (drop k95 ws)) (stop_listening t))"

text \<open>
  Where the stop lands in the last iteration. \<open>BeforeTest j\<close>: line 95 runs before line
  119 reads the flag, for instance during \<open>stream.read\<close>, so that the iteration takes its
  branch on the cleared flag; line 97 runs after the first \<open>j\<close> writes. \<open>AfterTest k j\<close>:
  line 95 runs after line 119 and after the first \<open>k\<close> writes, so that the branch taken is
  the one of the flag before the stop; line 97 runs \<open>j\<close> writes later. A number of writes
  beyond the end of the list means after the iteration.
\<close>

datatype stop_point = BeforeTest nat | AfterTest nat nat

fun stopped_iteration :: "stop_point \<Rightarrow> iter_env \<Rightarrow> app \<Rightarrow> app" where
  "stopped_iteration (BeforeTest j) e s =
     stop_overlay 0 j (loop_writes e (s\<lparr>in_command_window := False\<rparr>))
       (loop_iteration e (s\<lparr>in_command_window := False\<rparr>))"
| "stopped_iteration (AfterTest k j) e s =
     stop_overlay k (k + j) (loop_writes e s) (loop_iteration e s)"

text \<open>
  The loop of line 112. It runs while \<open>is_listening\<close> holds, a flag that the UI thread
  clears; the schedule lists what happens in order: an iteration with the answers of
  the outside, the UI thread running \<open>stop_listening\<close> between two iterations, or an
  iteration during which it runs. With the schedule used up and the flag still set, the
  loop is waiting in \<open>stream.read\<close>.
\<close>

datatype sched = Audio iter_env | StopCmd | StopDuring stop_point iter_env

fun sched_step :: "sched \<Rightarrow> app \<Rightarrow> app" where
  "sched_step (Audio e) s = loop_iteration e s"
| "sched_step StopCmd s = stop_listening s"
| "sched_step (StopDuring p e) s = stopped_iteration p e s"

datatype outcome = Returned app | Waiting app | Raised exn app

fun listen_while :: "sched list \<Rightarrow> app \<Rightarrow> outcome" where
  "listen_while [] s = (if is_listening s then Waiting s else Returned s)"
| "listen_while (x # rest) s =
     (if is_listening s then listen_while rest (sched_step x s) else Returned s)"

text \<open>
  \<open>main_listener_loop\<close>: the recognizer is built inside a \<open>try\<close> (lines 101 to 108); the
  audio stream is opened by a \<open>with\<close> statement outside of it, and closed when the loop
  is left.
\<close>

record session_env =
  init_result :: "exn + unit"
  open_result :: "exn + unit"
  schedule :: "sched list"

definition main_listener_loop :: "session_env \<Rightarrow> app \<Rightarrow> outcome" where
  "main_listener_loop env s =
     (case init_result env of
        Inl x \<Rightarrow>
          Returned (stop_listening (log_message (''Initialization Error: '' @ str_exn x) True s))
      | Inr _ \<Rightarrow>
          (let s1 = update_status listening_status (call_recognizer Create s)
           in case open_result env of
                Inl x \<Rightarrow> Raised x s1
              | Inr _ \<Rightarrow>
                  (case listen_while (schedule env) (s1\<lparr>stream_open := True\<rparr>) of
                     Returned s2 \<Rightarrow> Returned (s2\<lparr>stream_open := False\<rparr>)
                   | Waiting s2 \<Rightarrow> Waiting s2
                   | Raised x s2 \<Rightarrow> Raised x (s2\<lparr>stream_open := False\<rparr>))))"

section \<open>Concrete scenarios\<close>

text \<open>
  Inputs on which the theorems below are exercised: an iteration in which nothing is
  heard, one in which the wake word is heard, and the states they lead to from a freshly
  started application.
\<close>

definition quiet_env :: iter_env where
  "quiet_env = \<lparr> read_result = Inr [1, 2, 3], accept_result = Inr False,
     partial_result = Inr [''partial'' \<mapsto> []], time_at_121 = 10, time_at_131 = 10,
     time_at_148 = 10, final_result = Inr [''text'' \<mapsto> []], force_accept_result = Inr False,
     post_result = Inl (RequestException ''Connection refused'') \<rparr>"

definition wake_env :: iter_env where
  "wake_env = quiet_env\<lparr>partial_result := Inr [''partial'' \<mapsto> ''hey computer'']\<rparr>"

definition listening_app :: app where
  "listening_app = start_listening init_app"

definition window_app :: app where
  "window_app = loop_iteration wake_env listening_app"

text \<open>
  The state an outcome carries, and the state in which the loop starts once the
  recognizer is built and the stream is open (lines 102 to 111).
\<close>

fun outcome_app :: "outcome \<Rightarrow> app" where
  "outcome_app (Returned s) = s"
| "outcome_app (Waiting s) = s"
| "outcome_app (Raised x s) = s"


text \<open>
  Two sessions: one in which the user stops while the command window is open, and one
  whose recognizer cannot be built.
\<close>

definition stop_session :: session_env where
  "stop_session = \<lparr> init_result = Inr (), open_result = Inr (),
     schedule = [Audio wake_env, StopCmd, Audio quiet_env] \<rparr>"

definition broken_session :: session_env where
  "broken_session = \<lparr> init_result = Inl (OtherException ''Failed to create a model''),
     open_result = Inr (), schedule = [Audio wake_env] \<rparr>"





text \<open>
  Two answers of the LLM server with status 200, one whose \<open>response\<close> field is the empty
  string and one without that field, and an iteration in which the recognizer signals a
  final result whose text is empty.
\<close>

definition empty_reply_response :: http_response where
  "empty_reply_response = \<lparr> status_code = 200, reason = ''OK'', url = LLM_ENDPOINT,
     json_body = Inr [''response'' \<mapsto> []] \<rparr>"

definition missing_reply_response :: http_response where
  "missing_reply_response = \<lparr> status_code = 200, reason = ''OK'', url = LLM_ENDPOINT,
     json_body = Inr [''error'' \<mapsto> ''model not found''] \<rparr>"

definition final_empty_env :: iter_env where
  "final_empty_env = quiet_env\<lparr>accept_result := Inr True\<rparr>"

text \<open>
  More answers of the LLM server (a reply, a server error, a status 300 that carries a
  JSON body) and more iterations inside the command window: a final result with text,
  a timeout with text, a timeout without text, an iteration exactly \<open>COMMAND_TIMEOUT\<close>
  after the last word, and a final result whose request fails.
\<close>

definition answer_response :: http_response where
  "answer_response = \<lparr> status_code = 200, reason = ''OK'', url = LLM_ENDPOINT,
     json_body = Inr [''response'' \<mapsto> ''It is noon.''] \<rparr>"

definition server_error_response :: http_response where
  "server_error_response = \<lparr> status_code = 500, reason = ''Internal Server Error'',
     url = LLM_ENDPOINT, json_body = Inl (RequestException ''Expecting value'') \<rparr>"

definition redirect_response :: http_response where
  "redirect_response = \<lparr> status_code = 300, reason = ''Multiple Choices'',
     url = LLM_ENDPOINT, json_body = Inr [''response'' \<mapsto> ''ok''] \<rparr>"

definition final_env :: iter_env where
  "final_env = quiet_env\<lparr>accept_result := Inr True,
     final_result := Inr [''text'' \<mapsto> ''what time is it''],
     post_result := Inr answer_response\<rparr>"

definition timeout_env :: iter_env where
  "timeout_env = quiet_env\<lparr>time_at_131 := 20,
     final_result := Inr [''text'' \<mapsto> ''what time is it''],
     post_result := Inr answer_response\<rparr>"

definition silent_timeout_env :: iter_env where
  "silent_timeout_env = quiet_env\<lparr>time_at_131 := 20\<rparr>"

definition boundary_env :: iter_env where
  "boundary_env = quiet_env\<lparr>time_at_131 := 15\<rparr>"

definition failing_env :: iter_env where
  "failing_env = final_env\<lparr>post_result := Inr server_error_response\<rparr>"



text \<open>
  The specification speaks of a trimmed transcript. \<open>spec_strip\<close> removes the ASCII
  whitespace at both ends of a string, as \<open>str.strip()\<close> would, and \<open>spec_trimmed\<close> holds
  of a string that has none; the program itself contains no such call. \<open>padded_env\<close> is
  an iteration whose final result has text with blanks around it.
\<close>

definition is_space :: "char \<Rightarrow> bool" where
  "is_space ch = (ch \<in> set [CHR '' '', CHR 0x09, CHR 0x0A, CHR 0x0B, CHR 0x0C, CHR 0x0D])"

definition spec_strip :: "string \<Rightarrow> string" where
  "spec_strip c = rev (dropWhile is_space (rev (dropWhile is_space c)))"

definition spec_trimmed :: "string \<Rightarrow> bool" where
  "spec_trimmed c = (spec_strip c = c)"

definition padded_env :: iter_env where
  "padded_env = final_env\<lparr>final_result := Inr [''text'' \<mapsto> ''  what time is it '']\<rparr>"

text \<open>The request that \<open>query_llm\<close> posts for a prompt (lines 161 to 168).\<close>

definition llm_request_for :: "string \<Rightarrow> llm_request" where
  "llm_request_for c = \<lparr> endpoint = LLM_ENDPOINT,
     json_payload = \<lparr> model = LLM_MODEL, prompt = c, stream = False \<rparr>, timeout = 60 \<rparr>"

text \<open>
  A synthesizer whose calls return, and the audio of a list of utterances played one
  after the other, each from its beginning to its end.
\<close>

definition ok_tts :: tts_env where
  "ok_tts = \<lparr> say_result = Inr (), run_result = Inr () \<rparr>"

definition played :: "string list \<Rightarrow> playback list" where
  "played ts = concat (map (\<lambda>t. [PlayBegin t, PlayEnd t]) ts)"

section \<open>What an iteration leaves alone\<close>

text \<open>
  Whatever the outside answers, an iteration never touches the listening flag or the
  audio stream, never builds a recognizer, and calls \<open>Reset\<close> only when it starts outside
  the command window and ends inside it.
\<close>

lemmas ui_defs = log_message_def speak_def update_status_def call_recognizer_def

lemma process_command_frame:
  assumes "process_command c p s = (r, s')"
  shows "is_listening s' = is_listening s"
    and "in_command_window s' = in_command_window s"
    and "command_audio_buffer s' = command_audio_buffer s"
    and "recognizer_calls s' = recognizer_calls s"
    and "stream_open s' = stream_open s"
    and "llm_requests s' = llm_requests s @
           [\<lparr> endpoint = LLM_ENDPOINT,
              json_payload = \<lparr> model = LLM_MODEL, prompt = c, stream = False \<rparr>,
              timeout = 60 \<rparr>]"
  using assms
  by (auto simp: process_command_def query_llm_def ui_defs Let_def
      split: sum.splits exn.splits if_splits)

lemma final_branch_frame:
  assumes "final_branch e s = (r, s')"
  shows "is_listening s' = is_listening s"
    and "recognizer_calls s' = recognizer_calls s @ [Result]"
    and "stream_open s' = stream_open s"
  using assms
  by (auto simp: final_branch_def ui_defs Let_def
      split: sum.splits prod.splits if_splits dest: process_command_frame)

lemma timeout_branch_frame:
  assumes "timeout_branch e s = (r, s')"
  shows "is_listening s' = is_listening s"
    and "\<exists>new. recognizer_calls s' = recognizer_calls s @ new \<and> Reset \<notin> set new \<and> Create \<notin> set new"
    and "stream_open s' = stream_open s"
  using assms
  by (auto simp: timeout_branch_def ui_defs Let_def
      split: sum.splits prod.splits if_splits dest: process_command_frame)

lemma window_branch_frame:
  assumes "window_branch e data fin pt s = (r, s')"
  shows "is_listening s' = is_listening s"
    and "\<exists>new. recognizer_calls s' = recognizer_calls s @ new \<and> Reset \<notin> set new \<and> Create \<notin> set new"
    and "stream_open s' = stream_open s"
  using assms
  by (auto simp: window_branch_def Let_def split: if_splits
      dest: final_branch_frame timeout_branch_frame)

lemma loop_try_frame:
  assumes "loop_try e s = (r, s')"
  shows "is_listening s' = is_listening s"
    and "\<exists>new. recognizer_calls s' = recognizer_calls s @ new \<and> Create \<notin> set new \<and>
           (Reset \<in> set new \<longrightarrow> \<not> in_command_window s \<and> in_command_window s')"
    and "stream_open s' = stream_open s"
  using assms
  by (auto simp: loop_try_def Let_def wake_branch_def ui_defs split: sum.splits if_splits
      dest: window_branch_frame)

lemma loop_iteration_frame:
  shows "is_listening (loop_iteration e s) = is_listening s"
    and "\<exists>new. recognizer_calls (loop_iteration e s) = recognizer_calls s @ new \<and>
           Create \<notin> set new \<and>
           (Reset \<in> set new \<longrightarrow> \<not> in_command_window s \<and> in_command_window (loop_iteration e s))"
    and "stream_open (loop_iteration e s) = stream_open s"
proof -
  obtain r s' where rs: "loop_try e s = (r, s')" by (cases "loop_try e s")
  note f = loop_try_frame[OF rs]
  show "is_listening (loop_iteration e s) = is_listening s"
    using rs f(1) by (cases r) (simp_all add: loop_iteration_def ui_defs)
  show "stream_open (loop_iteration e s) = stream_open s"
    using rs f(3) by (cases r) (simp_all add: loop_iteration_def ui_defs)
  from f(2) obtain new where n: "recognizer_calls s' = recognizer_calls s @ new"
    "Create \<notin> set new" "Reset \<in> set new \<longrightarrow> \<not> in_command_window s \<and> in_command_window s'"
    by blast
  show "\<exists>new. recognizer_calls (loop_iteration e s) = recognizer_calls s @ new \<and>
           Create \<notin> set new \<and>
           (Reset \<in> set new \<longrightarrow> \<not> in_command_window s \<and> in_command_window (loop_iteration e s))"
    using rs n by (cases r) (auto simp: loop_iteration_def ui_defs)
qed

text \<open>The scenarios, evaluated.\<close>

lemma listening_app_simps:
  "listening_app = \<lparr> is_listening = True, in_command_window = False, last_word_time = 0,
     command_audio_buffer = [], status_label = ''Status: Idle'', log_textbox = [],
     toggle_button = ''Stop Listening'', speak_queue = [], engine_pending = [],
     audio_out = [], console = [], recognizer_calls = [], llm_requests = [],
     stream_open = False \<rparr>"
  by (simp add: listening_app_def start_listening_def init_app_def)

lemma wake_word_heard: "sublist WAKE_WORD ''hey computer''"
  by (simp add: WAKE_WORD_def sublist_Cons_right)

lemma window_app_simps:
  "window_app = \<lparr> is_listening = True, in_command_window = True, last_word_time = 10,
     command_audio_buffer = [], status_label = ''Status: Speak your query now...'',
     log_textbox = [apostrophe] @ ''computer'' @ [apostrophe] @ '' detected.'' @ [newline],
     toggle_button = ''Stop Listening'',
     speak_queue = [[apostrophe] @ ''computer'' @ [apostrophe] @ '' detected.''],
     engine_pending = [],
     audio_out = [], console = [],
     recognizer_calls = [AcceptWaveform [1, 2, 3], PartialResult, Reset], llm_requests = [],
     stream_open = False \<rparr>"
  unfolding window_app_def listening_app_simps
  by (simp add: loop_iteration_def loop_try_def wake_env_def quiet_env_def dict_get_def
      wake_word_heard wake_branch_def ui_defs)  (simp add: WAKE_WORD_def)

section \<open>The wake word\<close>

text \<open>
  Claim C1. An iteration that starts while waiting for the wake word (listening, not in
  the command window) and whose partial transcript contains the wake word enters the
  command window: the buffer is emptied, \<open>last_word_time\<close> is the clock read at line 148,
  and the recognizer is reset, once. The iteration that follows, whatever it hears, does
  not reset the recognizer again.
\<close>

theorem wake_word_enters_command_window:
  assumes "is_listening s" and "\<not> in_command_window s"
    and "read_result e = Inr data" and "accept_result e = Inr is_final"
    and "partial_result e = Inr pr"
    and "sublist WAKE_WORD (dict_get pr ''partial'' [])"
  shows "is_listening (loop_iteration e s) \<and> in_command_window (loop_iteration e s)
     \<and> command_audio_buffer (loop_iteration e s) = []
     \<and> last_word_time (loop_iteration e s) = time_at_148 e
     \<and> recognizer_calls (loop_iteration e s) =
         recognizer_calls s @ [AcceptWaveform data, PartialResult, Reset]
     \<and> filter (\<lambda>c. c = Reset) (recognizer_calls (loop_iteration e2 (loop_iteration e s))) =
         filter (\<lambda>c. c = Reset) (recognizer_calls s) @ [Reset]"
proof -
  have step: "loop_iteration e s = wake_branch e
      (call_recognizer PartialResult (call_recognizer (AcceptWaveform data) s))"
    using assms by (simp add: loop_iteration_def loop_try_def call_recognizer_def)
  have w: "in_command_window (loop_iteration e s)"
    by (simp add: step wake_branch_def ui_defs)
  have calls: "recognizer_calls (loop_iteration e s) =
         recognizer_calls s @ [AcceptWaveform data, PartialResult, Reset]"
    by (simp add: step wake_branch_def ui_defs)
  obtain new where new: "recognizer_calls (loop_iteration e2 (loop_iteration e s)) =
      recognizer_calls (loop_iteration e s) @ new" "Reset \<in> set new \<longrightarrow>
      \<not> in_command_window (loop_iteration e s)"
    using loop_iteration_frame(2)[of e2 "loop_iteration e s"] by blast
  with w have "Reset \<notin> set new" by blast
  then have "filter (\<lambda>c. c = Reset) new = []" by (induction new) auto
  with new(1) calls
  have "filter (\<lambda>c. c = Reset) (recognizer_calls (loop_iteration e2 (loop_iteration e s))) =
         filter (\<lambda>c. c = Reset) (recognizer_calls s) @ [Reset]"
    by simp
  moreover have "is_listening (loop_iteration e s)"
    using assms(1) by (simp add: step wake_branch_def ui_defs)
  moreover have "command_audio_buffer (loop_iteration e s) = []"
    by (simp add: step wake_branch_def ui_defs)
  moreover have "last_word_time (loop_iteration e s) = time_at_148 e"
    by (simp add: step wake_branch_def ui_defs)
  ultimately show ?thesis using w calls by simp
qed

theorem wake_word_enters_command_window_witness:
  "is_listening listening_app \<and> \<not> in_command_window listening_app
   \<and> read_result wake_env = Inr [1, 2, 3] \<and> accept_result wake_env = Inr False
   \<and> partial_result wake_env = Inr [''partial'' \<mapsto> ''hey computer'']
   \<and> sublist WAKE_WORD (dict_get [''partial'' \<mapsto> ''hey computer''] ''partial'' [])
   \<and> in_command_window (loop_iteration wake_env listening_app)
   \<and> command_audio_buffer (loop_iteration wake_env listening_app) = []
   \<and> last_word_time (loop_iteration wake_env listening_app) = 10
   \<and> recognizer_calls (loop_iteration wake_env listening_app) =
       [AcceptWaveform [1, 2, 3], PartialResult, Reset]
   \<and> filter (\<lambda>c. c = Reset) (recognizer_calls
        (loop_iteration wake_env (loop_iteration wake_env listening_app))) = [Reset]"
proof -
  have h: "is_listening listening_app" "\<not> in_command_window listening_app"
    "read_result wake_env = Inr [1, 2, 3]" "accept_result wake_env = Inr False"
    "partial_result wake_env = Inr [''partial'' \<mapsto> ''hey computer'']"
    "sublist WAKE_WORD (dict_get [''partial'' \<mapsto> ''hey computer''] ''partial'' [])"
    by (simp_all add: listening_app_simps wake_env_def quiet_env_def dict_get_def wake_word_heard)
  have t: "time_at_148 wake_env = 10" "recognizer_calls listening_app = []"
    by (simp_all add: listening_app_simps wake_env_def quiet_env_def)
  show ?thesis
    using wake_word_enters_command_window [OF h, of wake_env] h t by simp
qed

section \<open>Starting and stopping a session\<close>

lemma filter_absent: "c \<notin> set xs \<Longrightarrow> filter (\<lambda>x. x = c) xs = []"
  by (induction xs) auto

lemma stop_listening_frame:
  "recognizer_calls (stop_listening s) = recognizer_calls s"
  "stream_open (stop_listening s) = stream_open s"
  "\<not> is_listening (stop_listening s)"
  "\<not> in_command_window (stop_listening s)"
  "status_label (stop_listening s) = ''Status: Idle''"
  "toggle_button (stop_listening s) = ''Start Listening''"
  by (simp_all add: stop_listening_def ui_defs)

lemma apply_write_frame:
  "is_listening (apply_write w s) = is_listening s"
  "recognizer_calls (apply_write w s) = recognizer_calls s"
  "stream_open (apply_write w s) = stream_open s"
  "toggle_button (apply_write w s) = toggle_button s"
  by (cases w; simp add: update_status_def)+

lemma fold_apply_write_frame:
  "is_listening (fold apply_write ws s) = is_listening s"
  "recognizer_calls (fold apply_write ws s) = recognizer_calls s"
  "stream_open (fold apply_write ws s) = stream_open s"
  "toggle_button (fold apply_write ws s) = toggle_button s"
  by (induction ws arbitrary: s; simp add: apply_write_frame)+

lemma stop_overlay_frame:
  "\<not> is_listening (stop_overlay k95 k97 ws t)"
  "recognizer_calls (stop_overlay k95 k97 ws t) = recognizer_calls t"
  "stream_open (stop_overlay k95 k97 ws t) = stream_open t"
  "toggle_button (stop_overlay k95 k97 ws t) = ''Start Listening''"
  by (simp_all add: stop_overlay_def fold_apply_write_frame stop_listening_frame)

lemma stopped_iteration_frame:
  "\<not> is_listening (stopped_iteration p e s)"
  "filter (\<lambda>c. c = Create) (recognizer_calls (stopped_iteration p e s)) =
   filter (\<lambda>c. c = Create) (recognizer_calls s)"
  "stream_open (stopped_iteration p e s) = stream_open s"
  "toggle_button (stopped_iteration p e s) = ''Start Listening''"
proof -
  have c: "\<And>s. filter (\<lambda>c. c = Create) (recognizer_calls (loop_iteration e s)) =
      filter (\<lambda>c. c = Create) (recognizer_calls s)"
  proof -
    fix s
    obtain new where "recognizer_calls (loop_iteration e s) = recognizer_calls s @ new"
      "Create \<notin> set new"
      using loop_iteration_frame(2) [of e s] by blast
    then show "filter (\<lambda>c. c = Create) (recognizer_calls (loop_iteration e s)) =
        filter (\<lambda>c. c = Create) (recognizer_calls s)"
      by (simp add: filter_absent)
  qed
  show "\<not> is_listening (stopped_iteration p e s)"
    by (cases p) (simp_all add: stop_overlay_frame)
  show "filter (\<lambda>c. c = Create) (recognizer_calls (stopped_iteration p e s)) =
      filter (\<lambda>c. c = Create) (recognizer_calls s)"
    by (cases p) (simp_all add: c stop_overlay_frame)
  show "stream_open (stopped_iteration p e s) = stream_open s"
    by (cases p) (simp_all add: loop_iteration_frame(3) stop_overlay_frame)
  show "toggle_button (stopped_iteration p e s) = ''Start Listening''"
    by (cases p) (simp_all add: stop_overlay_frame)
qed

lemma listen_while_creates:
  "filter (\<lambda>c. c = Create) (recognizer_calls (outcome_app (listen_while sch s))) =
   filter (\<lambda>c. c = Create) (recognizer_calls s)"
proof (induction sch arbitrary: s)
  case Nil
  show ?case by simp
next
  case (Cons x rest)
  show ?case
  proof (cases x)
    case (Audio e)
    obtain new where "recognizer_calls (loop_iteration e s) = recognizer_calls s @ new"
      "Create \<notin> set new"
      using loop_iteration_frame(2)[of e s] by blast
    then have "filter (\<lambda>c. c = Create) (recognizer_calls (loop_iteration e s)) =
        filter (\<lambda>c. c = Create) (recognizer_calls s)"
      by (simp add: filter_absent)
    with Cons Audio show ?thesis by simp
  next
    case StopCmd
    with Cons show ?thesis by (simp add: stop_listening_frame)
  next
    case (StopDuring p e)
    with Cons show ?thesis by (simp add: stopped_iteration_frame)
  qed
qed



lemma window_app_eq: "loop_iteration wake_env listening_app = window_app"
  by (simp add: window_app_def)

text \<open>
  Claim C6. When building the recognizer raises, \<open>main_listener_loop\<close> logs (and speaks)
  the error, runs \<open>stop_listening\<close>, so that both flags are false and the status is idle,
  and returns: no recognizer call is made, the stream is not opened, nothing is raised.
\<close>

theorem init_failure_stops_session:
  assumes "init_result env = Inl x"
  shows "\<exists>s'. main_listener_loop env s = Returned s'
     \<and> \<not> is_listening s' \<and> \<not> in_command_window s'
     \<and> status_label s' = ''Status: Idle''
     \<and> toggle_button s' = ''Start Listening''
     \<and> log_textbox s' = log_textbox s @ ''Initialization Error: '' @ str_exn x @ [newline]
     \<and> speak_queue s' = speak_queue s @ [''Initialization Error: '' @ str_exn x]
     \<and> recognizer_calls s' = recognizer_calls s
     \<and> stream_open s' = stream_open s"
  using assms by (simp add: main_listener_loop_def stop_listening_def ui_defs)

theorem init_failure_stops_session_witness:
  "init_result broken_session = Inl (OtherException ''Failed to create a model'')
   \<and> main_listener_loop broken_session listening_app =
       Returned (outcome_app (main_listener_loop broken_session listening_app))
   \<and> \<not> is_listening (outcome_app (main_listener_loop broken_session listening_app))
   \<and> \<not> in_command_window (outcome_app (main_listener_loop broken_session listening_app))
   \<and> status_label (outcome_app (main_listener_loop broken_session listening_app)) = ''Status: Idle''
   \<and> log_textbox (outcome_app (main_listener_loop broken_session listening_app)) =
       ''Initialization Error: Failed to create a model'' @ [newline]
   \<and> speak_queue (outcome_app (main_listener_loop broken_session listening_app)) =
       [''Initialization Error: Failed to create a model'']"
proof -
  have h: "init_result broken_session = Inl (OtherException ''Failed to create a model'')"
    by (simp add: broken_session_def)
  have l: "log_textbox listening_app = []" "speak_queue listening_app = []"
    by (simp_all add: listening_app_simps)
  from init_failure_stops_session [OF h, of listening_app] obtain s' where
    "main_listener_loop broken_session listening_app = Returned s'"
    "\<not> is_listening s'" "\<not> in_command_window s'" "status_label s' = ''Status: Idle''"
    "log_textbox s' = log_textbox listening_app @
       ''Initialization Error: '' @ str_exn (OtherException ''Failed to create a model'') @ [newline]"
    "speak_queue s' = speak_queue listening_app @
       [''Initialization Error: '' @ str_exn (OtherException ''Failed to create a model'')]"
    by blast
  then show ?thesis using h l by simp
qed

text \<open>
  The list \<open>loop_writes\<close> against the iteration itself: replaying it on the state the
  iteration starts from gives the flag and the status line that the iteration leaves.
\<close>

lemma process_command_status:
  assumes "process_command c p s = (r, s')"
  shows "status_label s' = ''Status: Querying LLM...''"
    and "in_command_window s' = in_command_window s"
    and "r = (case llm_try p of Inl (OtherException m) \<Rightarrow> Inl (OtherException m) | _ \<Rightarrow> Inr ())"
  using assms
  by (auto simp: process_command_def query_llm_def ui_defs Let_def
      split: sum.splits exn.splits if_splits)

lemma final_branch_replay:
  assumes "final_branch e s = (r, s')"
  shows "in_command_window s' = in_command_window (fold apply_write (transcript_writes e) s)"
    and "status_label s' = status_label (fold apply_write (transcript_writes e) s)"
  using assms
  by (auto simp: final_branch_def transcript_writes_def ui_defs Let_def
      split: sum.splits prod.splits if_splits exn.splits dest: process_command_status)

lemma timeout_branch_replay:
  assumes "timeout_branch e s = (r, s')" and "command_audio_buffer s \<noteq> []"
  shows "in_command_window s' = in_command_window
           (fold apply_write (case force_accept_result e of Inl x \<Rightarrow> []
                              | Inr b \<Rightarrow> transcript_writes e) s)"
    and "status_label s' = status_label
           (fold apply_write (case force_accept_result e of Inl x \<Rightarrow> []
                              | Inr b \<Rightarrow> transcript_writes e) s)"
  using assms
  by (auto simp: timeout_branch_def transcript_writes_def np_concatenate_def ui_defs Let_def
      split: sum.splits prod.splits if_splits exn.splits dest: process_command_status)

lemma fold_apply_write_cong:
  assumes "in_command_window s = in_command_window t" and "status_label s = status_label t"
  shows "in_command_window (fold apply_write ws s) = in_command_window (fold apply_write ws t)"
    and "status_label (fold apply_write ws s) = status_label (fold apply_write ws t)"
proof -
  have "in_command_window (fold apply_write ws s) = in_command_window (fold apply_write ws t)
      \<and> status_label (fold apply_write ws s) = status_label (fold apply_write ws t)"
    using assms
  proof (induction ws arbitrary: s t)
    case Nil
    then show ?case by simp
  next
    case (Cons w ws)
    have "in_command_window (apply_write w s) = in_command_window (apply_write w t)"
      "status_label (apply_write w s) = status_label (apply_write w t)"
      using Cons.prems by (cases w; simp add: update_status_def)+
    from Cons.IH [OF this] show ?case by simp
  qed
  then show "in_command_window (fold apply_write ws s) = in_command_window (fold apply_write ws t)"
    and "status_label (fold apply_write ws s) = status_label (fold apply_write ws t)"
    by simp_all
qed

lemma window_branch_replay:
  assumes "window_branch e data fin pt s = (r, s')"
  shows "in_command_window s' = in_command_window
           (fold apply_write
              (if fin then transcript_writes e
               else if time_at_131 e - (if pt \<noteq> [] then time_at_121 e else last_word_time s)
                       > COMMAND_TIMEOUT
               then (case force_accept_result e of Inl x \<Rightarrow> [] | Inr b \<Rightarrow> transcript_writes e)
               else []) s)"
    and "status_label s' = status_label
           (fold apply_write
              (if fin then transcript_writes e
               else if time_at_131 e - (if pt \<noteq> [] then time_at_121 e else last_word_time s)
                       > COMMAND_TIMEOUT
               then (case force_accept_result e of Inl x \<Rightarrow> [] | Inr b \<Rightarrow> transcript_writes e)
               else []) s)"
proof -
  define s2 where "s2 = (if pt \<noteq> [] then
      s\<lparr>command_audio_buffer := command_audio_buffer s @ [data], last_word_time := time_at_121 e\<rparr>
    else s\<lparr>command_audio_buffer := command_audio_buffer s @ [data]\<rparr>)"
  define late where "late \<longleftrightarrow>
    time_at_131 e - (if pt \<noteq> [] then time_at_121 e else last_word_time s) > COMMAND_TIMEOUT"
  define ws where "ws = (if fin then transcript_writes e
     else if late
     then (case force_accept_result e of Inl x \<Rightarrow> [] | Inr b \<Rightarrow> transcript_writes e)
     else [])"
  have f: "in_command_window s2 = in_command_window s" "status_label s2 = status_label s"
    by (simp_all add: s2_def)
  have b: "command_audio_buffer s2 \<noteq> []"
    by (simp add: s2_def)
  have t: "late \<longleftrightarrow> time_at_131 e - last_word_time s2 > COMMAND_TIMEOUT"
    by (simp add: s2_def late_def)
  have w: "window_branch e data fin pt s =
      (if fin then final_branch e s2
       else if late then timeout_branch e s2
       else (Inr (), s2))"
    unfolding t by (simp add: window_branch_def Let_def s2_def)
  note c = fold_apply_write_cong [OF f, of ws]
  have "in_command_window s' = in_command_window (fold apply_write ws s2)
      \<and> status_label s' = status_label (fold apply_write ws s2)"
  proof (cases fin)
    case True
    then have "final_branch e s2 = (r, s')" using assms w by simp
    from final_branch_replay [OF this] True show ?thesis by (simp add: ws_def)
  next
    case False
    show ?thesis
    proof (cases late)
      case True
      then have "timeout_branch e s2 = (r, s')" using assms w False by simp
      from timeout_branch_replay [OF this b] True False show ?thesis by (simp add: ws_def)
    next
      case n: False
      then have "s' = s2" using assms w False by simp
      then show ?thesis using n False by (simp add: ws_def)
    qed
  qed
  then have "in_command_window s' = in_command_window (fold apply_write ws s)"
    "status_label s' = status_label (fold apply_write ws s)"
    using c by simp_all
  then show "in_command_window s' = in_command_window
           (fold apply_write
              (if fin then transcript_writes e
               else if time_at_131 e - (if pt \<noteq> [] then time_at_121 e else last_word_time s)
                       > COMMAND_TIMEOUT
               then (case force_accept_result e of Inl x \<Rightarrow> [] | Inr b \<Rightarrow> transcript_writes e)
               else []) s)"
    and "status_label s' = status_label
           (fold apply_write
              (if fin then transcript_writes e
               else if time_at_131 e - (if pt \<noteq> [] then time_at_121 e else last_word_time s)
                       > COMMAND_TIMEOUT
               then (case force_accept_result e of Inl x \<Rightarrow> [] | Inr b \<Rightarrow> transcript_writes e)
               else []) s)"
    unfolding ws_def late_def by simp_all
qed

lemma loop_try_replay:
  assumes "loop_try e s = (r, s')"
  shows "in_command_window s' = in_command_window (fold apply_write (loop_writes e s) s)"
    and "status_label s' = status_label (fold apply_write (loop_writes e s) s)"
proof -
  have "in_command_window s' = in_command_window (fold apply_write (loop_writes e s) s)
      \<and> status_label s' = status_label (fold apply_write (loop_writes e s) s)"
  proof (cases "read_result e")
    case (Inl x)
    then show ?thesis using assms by (simp add: loop_try_def loop_writes_def)
  next
    case rd: (Inr data)
    show ?thesis
    proof (cases "accept_result e")
      case (Inl x)
      then show ?thesis using assms rd
        by (auto simp: loop_try_def loop_writes_def Let_def ui_defs)
    next
      case ac: (Inr fin)
      show ?thesis
      proof (cases "partial_result e")
        case (Inl x)
        then show ?thesis using assms rd ac
          by (auto simp: loop_try_def loop_writes_def Let_def ui_defs)
      next
        case pa: (Inr pr)
        define s2 where "s2 = call_recognizer PartialResult (call_recognizer (AcceptWaveform data) s)"
        define pt where "pt = dict_get pr ''partial'' []"
        have f: "in_command_window s2 = in_command_window s" "status_label s2 = status_label s"
          "last_word_time s2 = last_word_time s"
          by (simp_all add: s2_def ui_defs)
        have l: "loop_try e s =
            (if in_command_window s then window_branch e data fin pt s2
             else if sublist WAKE_WORD pt then (Inr (), wake_branch e s2)
             else (Inr (), s2))"
          using rd ac pa by (simp add: loop_try_def Let_def s2_def pt_def call_recognizer_def)
        show ?thesis
        proof (cases "in_command_window s")
          case True
          then have wb: "window_branch e data fin pt s2 = (r, s')" using assms l by simp
          have lw: "loop_writes e s =
              (if fin then transcript_writes e
               else if time_at_131 e - (if pt \<noteq> [] then time_at_121 e else last_word_time s2)
                       > COMMAND_TIMEOUT
               then (case force_accept_result e of Inl x \<Rightarrow> [] | Inr b \<Rightarrow> transcript_writes e)
               else [])"
            using rd ac pa True by (simp add: loop_writes_def Let_def pt_def f(3))
          show ?thesis
            using window_branch_replay [OF wb] fold_apply_write_cong [OF f(1,2)]
            unfolding lw by simp
        next
          case False
          have "s' = (if sublist WAKE_WORD pt then wake_branch e s2 else s2)"
            using assms l False by (simp split: if_splits)
          moreover have "loop_writes e s =
              (if sublist WAKE_WORD pt
               then [SetWindow True, SetStatus ''Speak your query now...''] else [])"
            using rd ac pa False by (simp add: loop_writes_def Let_def pt_def)
          ultimately show ?thesis
            by (simp add: wake_branch_def ui_defs s2_def)
        qed
      qed
    qed
  qed
  then show "in_command_window s' = in_command_window (fold apply_write (loop_writes e s) s)"
    and "status_label s' = status_label (fold apply_write (loop_writes e s) s)"
    by simp_all
qed

lemma loop_writes_replay:
  "in_command_window (loop_iteration e s) =
   in_command_window (fold apply_write (loop_writes e s) s)"
  "status_label (loop_iteration e s) = status_label (fold apply_write (loop_writes e s) s)"
proof -
  obtain r s' where rs: "loop_try e s = (r, s')" by (cases "loop_try e s")
  show "in_command_window (loop_iteration e s) =
      in_command_window (fold apply_write (loop_writes e s) s)"
    using rs loop_try_replay(1) [OF rs] by (cases r) (simp_all add: loop_iteration_def ui_defs)
  show "status_label (loop_iteration e s) = status_label (fold apply_write (loop_writes e s) s)"
    using rs loop_try_replay(2) [OF rs] by (cases r) (simp_all add: loop_iteration_def ui_defs)
qed















text \<open>
  Claim C8. A session whose initialization succeeds builds exactly one recognizer, and
  no iteration builds another. An iteration calls \<open>Reset\<close> only when it starts outside the
  command window and ends inside it, that is at the wake-word transition: an iteration
  that starts inside the command window never resets the recognizer.
\<close>

theorem one_recognizer_reset_at_wake_only:
  "(init_result env = Inr () \<longrightarrow>
      filter (\<lambda>c. c = Create) (recognizer_calls (outcome_app (main_listener_loop env s))) =
      filter (\<lambda>c. c = Create) (recognizer_calls s) @ [Create])
   \<and> (\<exists>new. recognizer_calls (loop_iteration e s1) = recognizer_calls s1 @ new \<and>
         Create \<notin> set new \<and>
         (Reset \<in> set new \<longrightarrow> \<not> in_command_window s1 \<and> in_command_window (loop_iteration e s1)))"
proof
  show "init_result env = Inr () \<longrightarrow>
      filter (\<lambda>c. c = Create) (recognizer_calls (outcome_app (main_listener_loop env s))) =
      filter (\<lambda>c. c = Create) (recognizer_calls s) @ [Create]"
  proof
    assume ok: "init_result env = Inr ()"
    let ?s1 = "update_status listening_status (call_recognizer Create s)"
    have c1: "recognizer_calls ?s1 = recognizer_calls s @ [Create]"
      by (simp add: ui_defs)
    show "filter (\<lambda>c. c = Create) (recognizer_calls (outcome_app (main_listener_loop env s))) =
      filter (\<lambda>c. c = Create) (recognizer_calls s) @ [Create]"
    proof (cases "open_result env")
      case (Inl x)
      with ok c1 show ?thesis by (simp add: main_listener_loop_def Let_def)
    next
      case (Inr u)
      have "filter (\<lambda>c. c = Create) (recognizer_calls (outcome_app
              (listen_while (schedule env) (?s1\<lparr>stream_open := True\<rparr>)))) =
            filter (\<lambda>c. c = Create) (recognizer_calls s) @ [Create]"
        using listen_while_creates[of "schedule env" "?s1\<lparr>stream_open := True\<rparr>"] c1 by simp
      with ok Inr show ?thesis
        by (cases "listen_while (schedule env) (?s1\<lparr>stream_open := True\<rparr>)")
          (simp_all add: main_listener_loop_def Let_def)
    qed
  qed
  show "\<exists>new. recognizer_calls (loop_iteration e s1) = recognizer_calls s1 @ new \<and>
         Create \<notin> set new \<and>
         (Reset \<in> set new \<longrightarrow> \<not> in_command_window s1 \<and> in_command_window (loop_iteration e s1))"
    by (rule loop_iteration_frame(2))
qed

theorem one_recognizer_reset_at_wake_only_witness:
  "init_result stop_session = Inr ()
   \<and> filter (\<lambda>c. c = Create)
        (recognizer_calls (outcome_app (main_listener_loop stop_session listening_app))) = [Create]
   \<and> recognizer_calls (loop_iteration wake_env listening_app) =
        recognizer_calls listening_app @ [AcceptWaveform [1, 2, 3], PartialResult, Reset]
   \<and> \<not> in_command_window listening_app
   \<and> in_command_window (loop_iteration wake_env listening_app)"
proof -
  have i: "init_result stop_session = Inr ()"
    by (simp add: stop_session_def)
  have "filter (\<lambda>c. c = Create)
        (recognizer_calls (outcome_app (main_listener_loop stop_session listening_app))) = [Create]"
    using one_recognizer_reset_at_wake_only [of stop_session listening_app wake_env listening_app] i
    by (simp add: listening_app_simps)
  then show ?thesis
    using i by (simp add: window_app_eq window_app_simps) (simp add: listening_app_simps)
qed

section \<open>The reply of the LLM\<close>

lemma http_error_msg_success:
  "status_code r < 400 \<Longrightarrow> http_error_msg r = []"
  by (simp add: http_error_msg_def)

lemma llm_try_success:
  assumes "status_code resp < 400" and "json_body resp = Inr js"
  shows "llm_try (Inr resp) = Inr (dict_get js ''response'' ''No response text found in LLM output.'')"
  using assms by (simp add: llm_try_def raise_for_status_def http_error_msg_success)

text \<open>
  Claim C9. The server answers with a 2xx status and a JSON object. When its
  \<open>response\<close> field is the empty string, \<open>query_llm\<close> returns the empty string and
  \<open>process_command\<close> logs no LLM response and enqueues nothing for speech: the log holds
  only the line that \<open>query_llm\<close> writes before the request. When the field is missing,
  \<open>query_llm\<close> returns the fallback text, which is logged and spoken.
\<close>

theorem empty_reply_dropped_missing_reply_defaulted:
  assumes "200 \<le> status_code resp" and "status_code resp < 300"
    and "json_body resp = Inr js"
  shows "(js ''response'' = Some [] \<longrightarrow>
            fst (query_llm c (Inr resp) s) = Inr []
          \<and> fst (process_command c (Inr resp) s) = Inr ()
          \<and> log_textbox (snd (process_command c (Inr resp) s)) =
              log_textbox s @ ''Sending query to LLM...'' @ [newline]
          \<and> speak_queue (snd (process_command c (Inr resp) s)) = speak_queue s
          \<and> console (snd (process_command c (Inr resp) s)) = console s)
     \<and> (js ''response'' = None \<longrightarrow>
            fst (query_llm c (Inr resp) s) = Inr ''No response text found in LLM output.''
          \<and> fst (process_command c (Inr resp) s) = Inr ()
          \<and> log_textbox (snd (process_command c (Inr resp) s)) =
              log_textbox s @ ''Sending query to LLM...'' @ [newline] @
              ''LLM Response: No response text found in LLM output.'' @ [newline]
          \<and> speak_queue (snd (process_command c (Inr resp) s)) =
              speak_queue s @ [''No response text found in LLM output.''])"
proof -
  have t: "llm_try (Inr resp) =
      Inr (dict_get js ''response'' ''No response text found in LLM output.'')"
    using assms by (intro llm_try_success) simp_all
  show ?thesis
    by (simp add: process_command_def query_llm_def t dict_get_def ui_defs Let_def)
qed

theorem empty_reply_dropped_missing_reply_defaulted_witness:
  "200 \<le> status_code empty_reply_response \<and> status_code empty_reply_response < 300
   \<and> json_body empty_reply_response = Inr [''response'' \<mapsto> []]
   \<and> [''response'' \<mapsto> []] ''response'' = Some []
   \<and> fst (query_llm ''what time is it'' (Inr empty_reply_response) window_app) = Inr []
   \<and> log_textbox (snd (process_command ''what time is it'' (Inr empty_reply_response) window_app)) =
       log_textbox window_app @ ''Sending query to LLM...'' @ [newline]
   \<and> speak_queue (snd (process_command ''what time is it'' (Inr empty_reply_response) window_app)) =
       speak_queue window_app
   \<and> 200 \<le> status_code missing_reply_response \<and> status_code missing_reply_response < 300
   \<and> json_body missing_reply_response = Inr [''error'' \<mapsto> ''model not found'']
   \<and> [''error'' \<mapsto> ''model not found''] ''response'' = None
   \<and> speak_queue (snd (process_command ''what time is it'' (Inr missing_reply_response) window_app)) =
       speak_queue window_app @ [''No response text found in LLM output.'']"
proof -
  have a: "200 \<le> status_code empty_reply_response" "status_code empty_reply_response < 300"
    "json_body empty_reply_response = Inr [''response'' \<mapsto> []]"
    by (simp_all add: empty_reply_response_def)
  have b: "200 \<le> status_code missing_reply_response" "status_code missing_reply_response < 300"
    "json_body missing_reply_response = Inr [''error'' \<mapsto> ''model not found'']"
    by (simp_all add: missing_reply_response_def)
  show ?thesis
    using empty_reply_dropped_missing_reply_defaulted [OF a, of "''what time is it''" window_app]
      empty_reply_dropped_missing_reply_defaulted [OF b, of "''what time is it''" window_app]
      a b
    by simp
qed

section \<open>A final result without text\<close>

lemma waiting_iteration_buffer:
  assumes "\<not> in_command_window s"
  shows "command_audio_buffer (loop_iteration e s) = command_audio_buffer s
       \<or> (in_command_window (loop_iteration e s) \<and> command_audio_buffer (loop_iteration e s) = [])"
  using assms
  by (auto simp: loop_iteration_def loop_try_def wake_branch_def ui_defs Let_def
      split: sum.splits)

text \<open>
  Claim C10. When the recognizer signals a final result whose text is empty, the branch
  of lines 124 to 130 changes the command-window flag and the status line and nothing
  else (its call of \<open>Result\<close> is recorded): no request is sent, nothing is logged or
  spoken, the buffer is left as it is. Over the whole iteration the buffer therefore
  holds what it held plus the block appended at line 120. An iteration that then starts
  outside the command window leaves the buffer alone unless it enters the command window,
  which empties it.
\<close>

theorem empty_final_result_only_leaves_window:
  assumes "final_result e = Inr fr" and "dict_get fr ''text'' [] = []"
  shows "final_branch e s =
           (Inr (), s\<lparr>in_command_window := False,
                      status_label := ''Status: '' @ listening_status,
                      recognizer_calls := recognizer_calls s @ [Result]\<rparr>)
     \<and> (in_command_window s1 \<and> read_result e = Inr data \<and> accept_result e = Inr True
          \<and> partial_result e = Inr pr \<longrightarrow>
            \<not> in_command_window (loop_iteration e s1)
          \<and> is_listening (loop_iteration e s1) = is_listening s1
          \<and> status_label (loop_iteration e s1) = ''Status: '' @ listening_status
          \<and> command_audio_buffer (loop_iteration e s1) = command_audio_buffer s1 @ [data]
          \<and> log_textbox (loop_iteration e s1) = log_textbox s1
          \<and> speak_queue (loop_iteration e s1) = speak_queue s1
          \<and> llm_requests (loop_iteration e s1) = llm_requests s1
          \<and> console (loop_iteration e s1) = console s1
          \<and> recognizer_calls (loop_iteration e s1) =
              recognizer_calls s1 @ [AcceptWaveform data, PartialResult, Result])
     \<and> (in_command_window s2 \<or>
          command_audio_buffer (loop_iteration e2 s2) = command_audio_buffer s2 \<or>
          (in_command_window (loop_iteration e2 s2) \<and>
           command_audio_buffer (loop_iteration e2 s2) = []))"
proof -
  have f: "\<And>s. final_branch e s =
           (Inr (), s\<lparr>in_command_window := False,
                      status_label := ''Status: '' @ listening_status,
                      recognizer_calls := recognizer_calls s @ [Result]\<rparr>)"
    using assms by (simp add: final_branch_def ui_defs Let_def)
  have "in_command_window s2 \<or>
          command_audio_buffer (loop_iteration e2 s2) = command_audio_buffer s2 \<or>
          (in_command_window (loop_iteration e2 s2) \<and>
           command_audio_buffer (loop_iteration e2 s2) = [])"
    using waiting_iteration_buffer [of s2 e2] by blast
  then show ?thesis
    by (simp add: f loop_iteration_def loop_try_def window_branch_def call_recognizer_def Let_def)
qed

theorem empty_final_result_only_leaves_window_witness:
  "final_result final_empty_env = Inr [''text'' \<mapsto> []]
   \<and> dict_get [''text'' \<mapsto> []] ''text'' [] = []
   \<and> in_command_window window_app \<and> read_result final_empty_env = Inr [1, 2, 3]
   \<and> accept_result final_empty_env = Inr True
   \<and> partial_result final_empty_env = Inr [''partial'' \<mapsto> []]
   \<and> \<not> in_command_window (loop_iteration final_empty_env window_app)
   \<and> command_audio_buffer (loop_iteration final_empty_env window_app) = [[1, 2, 3]]
   \<and> log_textbox (loop_iteration final_empty_env window_app) = log_textbox window_app
   \<and> speak_queue (loop_iteration final_empty_env window_app) = speak_queue window_app
   \<and> llm_requests (loop_iteration final_empty_env window_app) = []"
proof -
  have h: "final_result final_empty_env = Inr [''text'' \<mapsto> []]"
    "dict_get [''text'' \<mapsto> []] ''text'' [] = []"
    by (simp_all add: final_empty_env_def quiet_env_def dict_get_def)
  have g: "in_command_window window_app" "read_result final_empty_env = Inr [1, 2, 3]"
    "accept_result final_empty_env = Inr True"
    "partial_result final_empty_env = Inr [''partial'' \<mapsto> []]"
    "command_audio_buffer window_app = []" "llm_requests window_app = []"
    by (simp_all add: final_empty_env_def quiet_env_def window_app_simps)
  show ?thesis
    using empty_final_result_only_leaves_window [OF h, where ?s1.0 = window_app
        and data = "[1, 2, 3]" and pr = "[''partial'' \<mapsto> []]"] h g
    by simp
qed

section \<open>Dispatching a transcript\<close>

text \<open>
  What \<open>query_llm\<close> returns depends on the server alone; \<open>process_command\<close> adds the
  request, one or two log lines and at most one utterance. An iteration inside the
  command window that reaches a transcript with text, by a final result or by the
  timeout, is then described field by field.
\<close>

lemma query_llm_result:
  "fst (query_llm c p s) =
     (case llm_try p of
        Inr reply \<Rightarrow> Inr reply
      | Inl (RequestException m) \<Rightarrow> Inr (''Error connecting to LLM: '' @ m)
      | Inl (OtherException m) \<Rightarrow> Inl (OtherException m))"
  by (simp add: query_llm_def Let_def split: sum.splits exn.splits)

lemma query_llm_result_indep: "fst (query_llm c p s) = fst (query_llm c' p s')"
  by (simp add: query_llm_result)

lemma process_command_effect:
  assumes "process_command c p s = (r, s')"
  shows "r = (case fst (query_llm c p s) of Inl x \<Rightarrow> Inl x | Inr reply \<Rightarrow> Inr ())"
    and "is_listening s' = is_listening s"
    and "in_command_window s' = in_command_window s"
    and "command_audio_buffer s' = command_audio_buffer s"
    and "recognizer_calls s' = recognizer_calls s"
    and "llm_requests s' = llm_requests s @ [llm_request_for c]"
    and "speak_queue s' = speak_queue s @
           (case fst (query_llm c p s) of
              Inl x \<Rightarrow> []
            | Inr reply \<Rightarrow> if reply \<noteq> [] then [reply] else [])"
    and "log_textbox s' = log_textbox s @ ''Sending query to LLM...'' @ [newline] @
           (case fst (query_llm c p s) of
              Inl x \<Rightarrow> []
            | Inr reply \<Rightarrow> if reply \<noteq> [] then ''LLM Response: '' @ reply @ [newline] else [])"
    and "console s' = console s @
           (case llm_try p of Inl (RequestException m) \<Rightarrow> [''Error connecting to LLM: '' @ m]
            | _ \<Rightarrow> [])"
  using assms
  by (auto simp: process_command_def query_llm_def ui_defs Let_def llm_request_for_def
      split: sum.splits exn.splits if_splits)

lemma final_branch_dispatch:
  assumes "final_result e = Inr fr" and "dict_get fr ''text'' [] = c" and "c \<noteq> []"
    and "process_command c (post_result e)
           (log_message (''> Query: '' @ c) False (call_recognizer Result s)) = (r, s')"
  shows "final_branch e s =
           (case r of Inl x \<Rightarrow> (Inl x, s')
            | Inr u \<Rightarrow> (Inr (), update_status listening_status (s'\<lparr>in_command_window := False\<rparr>)))"
  using assms by (simp add: final_branch_def Let_def split: sum.splits)

lemma timeout_branch_dispatch:
  assumes "command_audio_buffer s \<noteq> []" and "force_accept_result e = Inr b"
    and "final_result e = Inr fr" and "dict_get fr ''text'' [] = c" and "c \<noteq> []"
    and "process_command c (post_result e)
           (log_message (''> Query: '' @ c) False
             (call_recognizer Result
               (call_recognizer (AcceptWaveform (concat (command_audio_buffer s)))
                 (log_message ''Timeout reached, processing command...'' False s)))) = (r, s')"
  shows "timeout_branch e s =
           (case r of Inl x \<Rightarrow> (Inl x, s')
            | Inr u \<Rightarrow> (Inr (), update_status listening_status
                 (s'\<lparr>in_command_window := False, command_audio_buffer := []\<rparr>)))"
proof -
  have c: "np_concatenate (command_audio_buffer
              (log_message ''Timeout reached, processing command...'' False s)) =
           Inr (concat (command_audio_buffer s))"
    using assms(1) by (simp add: np_concatenate_def log_message_def)
  have b: "command_audio_buffer (log_message ''Timeout reached, processing command...'' False s)
      = command_audio_buffer s"
    by (simp add: log_message_def)
  show ?thesis
    using assms(2-) unfolding timeout_branch_def Let_def c
    by (simp split: sum.splits)
qed

lemma dispatch_iteration:
  assumes win: "in_command_window s"
    and rd: "read_result e = Inr data" and ac: "accept_result e = Inr is_final"
    and pa: "partial_result e = Inr pr"
    and path: "is_final \<or>
       (COMMAND_TIMEOUT < time_at_131 e -
          (if dict_get pr ''partial'' [] \<noteq> [] then time_at_121 e else last_word_time s)
        \<and> force_accept_result e = Inr b)"
    and fr: "final_result e = Inr fr" and tx: "dict_get fr ''text'' [] = c" and ne: "c \<noteq> []"
  shows "llm_requests (loop_iteration e s) = llm_requests s @ [llm_request_for c]"
    and "speak_queue (loop_iteration e s) = speak_queue s @
           (case fst (query_llm c (post_result e) s) of
              Inl x \<Rightarrow> [''Error during listening loop: '' @ str_exn x]
            | Inr reply \<Rightarrow> if reply \<noteq> [] then [reply] else [])"
    and "log_textbox (loop_iteration e s) = log_textbox s @
           (if is_final then [] else ''Timeout reached, processing command...'' @ [newline]) @
           ''> Query: '' @ c @ [newline] @ ''Sending query to LLM...'' @ [newline] @
           (case fst (query_llm c (post_result e) s) of
              Inl x \<Rightarrow> ''Error during listening loop: '' @ str_exn x @ [newline]
            | Inr reply \<Rightarrow> if reply \<noteq> [] then ''LLM Response: '' @ reply @ [newline] else [])"
    and "in_command_window (loop_iteration e s) =
           (case fst (query_llm c (post_result e) s) of Inl x \<Rightarrow> True | Inr reply \<Rightarrow> False)"
    and "is_listening (loop_iteration e s) = is_listening s"
    and "command_audio_buffer (loop_iteration e s) =
           (case fst (query_llm c (post_result e) s) of
              Inl x \<Rightarrow> command_audio_buffer s @ [data]
            | Inr reply \<Rightarrow> if is_final then command_audio_buffer s @ [data] else [])"
    and "recognizer_calls (loop_iteration e s) =
           recognizer_calls s @ [AcceptWaveform data, PartialResult] @
           (if is_final then [Result]
            else [AcceptWaveform (concat (command_audio_buffer s @ [data])), Result])"
    and "console (loop_iteration e s) = console s @
           (case llm_try (post_result e) of
              Inl (RequestException m) \<Rightarrow> [''Error connecting to LLM: '' @ m]
            | _ \<Rightarrow> [])"
    and "status_label (loop_iteration e s) =
           (case fst (query_llm c (post_result e) s) of
              Inl x \<Rightarrow> ''Status: Querying LLM...''
            | Inr reply \<Rightarrow> ''Status: '' @ listening_status)"
proof -
  define s2 where "s2 = call_recognizer PartialResult (call_recognizer (AcceptWaveform data) s)"
  define s3 where "s3 = s2\<lparr>command_audio_buffer := command_audio_buffer s2 @ [data]\<rparr>"
  define s4 where "s4 = (if dict_get pr ''partial'' [] \<noteq> []
                         then s3\<lparr>last_word_time := time_at_121 e\<rparr> else s3)"
  define mid where "mid = (if is_final then call_recognizer Result s4
     else call_recognizer Result
            (call_recognizer (AcceptWaveform (concat (command_audio_buffer s4)))
              (log_message ''Timeout reached, processing command...'' False s4)))"
  define pre where "pre = log_message (''> Query: '' @ c) False mid"
  obtain r s' where pc: "process_command c (post_result e) pre = (r, s')"
    by (cases "process_command c (post_result e) pre")
  note eff = process_command_effect [OF pc]
  have q: "fst (query_llm c (post_result e) pre) = fst (query_llm c (post_result e) s)"
    by (rule query_llm_result_indep)
  have s4f: "in_command_window s4" "is_listening s4 = is_listening s"
    "command_audio_buffer s4 = command_audio_buffer s @ [data]"
    "recognizer_calls s4 = recognizer_calls s @ [AcceptWaveform data, PartialResult]"
    "log_textbox s4 = log_textbox s" "speak_queue s4 = speak_queue s"
    "llm_requests s4 = llm_requests s" "console s4 = console s"
    "last_word_time s4 =
       (if dict_get pr ''partial'' [] \<noteq> [] then time_at_121 e else last_word_time s)"
    using win by (simp_all add: s4_def s3_def s2_def call_recognizer_def)
  have pref: "in_command_window pre" "is_listening pre = is_listening s"
    "command_audio_buffer pre = command_audio_buffer s @ [data]"
    "recognizer_calls pre = recognizer_calls s @ [AcceptWaveform data, PartialResult] @
           (if is_final then [Result]
            else [AcceptWaveform (concat (command_audio_buffer s @ [data])), Result])"
    "log_textbox pre = log_textbox s @
           (if is_final then [] else ''Timeout reached, processing command...'' @ [newline]) @
           ''> Query: '' @ c @ [newline]"
    "speak_queue pre = speak_queue s" "llm_requests pre = llm_requests s"
    "console pre = console s"
    using s4f by (simp_all add: pre_def mid_def ui_defs)
  have lt: "loop_try e s = (if is_final then final_branch e s4 else timeout_branch e s4)"
    using win rd ac pa path s4f(9)
    by (auto simp: loop_try_def window_branch_def Let_def s4_def s3_def s2_def
        call_recognizer_def)
  have br: "loop_try e s =
      (case r of Inl x \<Rightarrow> (Inl x, s')
       | Inr u \<Rightarrow> (Inr (), update_status listening_status
            (s'\<lparr>in_command_window := False,
                command_audio_buffer := (if is_final then command_audio_buffer s' else [])\<rparr>)))"
  proof (cases is_final)
    case True
    have "process_command c (post_result e)
            (log_message (''> Query: '' @ c) False (call_recognizer Result s4)) = (r, s')"
      using pc True by (simp add: pre_def mid_def)
    from final_branch_dispatch [OF fr tx ne this] lt True show ?thesis
      by (simp split: sum.splits)
  next
    case False
    with path have fa: "force_accept_result e = Inr b" by simp
    have ne4: "command_audio_buffer s4 \<noteq> []" by (simp add: s4f)
    have "process_command c (post_result e)
            (log_message (''> Query: '' @ c) False
              (call_recognizer Result
                (call_recognizer (AcceptWaveform (concat (command_audio_buffer s4)))
                  (log_message ''Timeout reached, processing command...'' False s4)))) = (r, s')"
      using pc False by (simp add: pre_def mid_def)
    from timeout_branch_dispatch [OF ne4 fa fr tx ne this] lt False show ?thesis
      by (simp split: sum.splits)
  qed
  have li: "loop_iteration e s =
      (case r of
         Inl x \<Rightarrow> log_message (''Error during listening loop: '' @ str_exn x) True s'
       | Inr u \<Rightarrow> update_status listening_status
            (s'\<lparr>in_command_window := False,
                command_audio_buffer := (if is_final then command_audio_buffer s' else [])\<rparr>))"
    by (simp add: loop_iteration_def br split: sum.splits)
  have rq: "r = (case fst (query_llm c (post_result e) s) of Inl x \<Rightarrow> Inl x | Inr reply \<Rightarrow> Inr ())"
    using eff(1) q by simp
  show "llm_requests (loop_iteration e s) = llm_requests s @ [llm_request_for c]"
    using eff(6) pref by (simp add: li ui_defs split: sum.splits)
  show "speak_queue (loop_iteration e s) = speak_queue s @
           (case fst (query_llm c (post_result e) s) of
              Inl x \<Rightarrow> [''Error during listening loop: '' @ str_exn x]
            | Inr reply \<Rightarrow> if reply \<noteq> [] then [reply] else [])"
    using eff(7) pref rq q by (simp add: li ui_defs split: sum.splits)
  show "log_textbox (loop_iteration e s) = log_textbox s @
           (if is_final then [] else ''Timeout reached, processing command...'' @ [newline]) @
           ''> Query: '' @ c @ [newline] @ ''Sending query to LLM...'' @ [newline] @
           (case fst (query_llm c (post_result e) s) of
              Inl x \<Rightarrow> ''Error during listening loop: '' @ str_exn x @ [newline]
            | Inr reply \<Rightarrow> if reply \<noteq> [] then ''LLM Response: '' @ reply @ [newline] else [])"
    using eff(8) pref rq q by (simp add: li ui_defs split: sum.splits)
  show "in_command_window (loop_iteration e s) =
           (case fst (query_llm c (post_result e) s) of Inl x \<Rightarrow> True | Inr reply \<Rightarrow> False)"
    using eff(3) pref rq by (simp add: li ui_defs split: sum.splits)
  show "is_listening (loop_iteration e s) = is_listening s"
    using eff(2) pref by (simp add: li ui_defs split: sum.splits)
  show "command_audio_buffer (loop_iteration e s) =
           (case fst (query_llm c (post_result e) s) of
              Inl x \<Rightarrow> command_audio_buffer s @ [data]
            | Inr reply \<Rightarrow> if is_final then command_audio_buffer s @ [data] else [])"
    using eff(4) pref rq by (simp add: li ui_defs split: sum.splits)
  show "recognizer_calls (loop_iteration e s) =
           recognizer_calls s @ [AcceptWaveform data, PartialResult] @
           (if is_final then [Result]
            else [AcceptWaveform (concat (command_audio_buffer s @ [data])), Result])"
    using eff(5) pref by (simp add: li ui_defs split: sum.splits)
  show "console (loop_iteration e s) = console s @
           (case llm_try (post_result e) of
              Inl (RequestException m) \<Rightarrow> [''Error connecting to LLM: '' @ m]
            | _ \<Rightarrow> [])"
    using eff(9) pref by (simp add: li ui_defs split: sum.splits)
  have st: "status_label s' = ''Status: Querying LLM...''"
    using pc by (auto simp: process_command_def query_llm_def ui_defs Let_def
        split: sum.splits exn.splits if_splits)
  show "status_label (loop_iteration e s) =
           (case fst (query_llm c (post_result e) s) of
              Inl x \<Rightarrow> ''Status: Querying LLM...''
            | Inr reply \<Rightarrow> ''Status: '' @ listening_status)"
    using st rq by (simp add: li ui_defs split: sum.splits)
qed

lemmas scenario_defs = quiet_env_def wake_env_def final_env_def timeout_env_def
  silent_timeout_env_def boundary_env_def failing_env_def final_empty_env_def
  answer_response_def server_error_response_def redirect_response_def
  empty_reply_response_def missing_reply_response_def

lemma answer_reply:
  "fst (query_llm c (Inr answer_response) s) = Inr ''It is noon.''"
  by (simp add: query_llm_result llm_try_def raise_for_status_def http_error_msg_def
      answer_response_def dict_get_def)

text \<open>
  Claim C3. An iteration inside the command window obtains a final transcript with text,
  either because the recognizer signalled a final result or through the timeout. Then
  exactly one request is posted and its prompt is that string, unchanged (the code does
  not trim: the string is passed as the recognizer gave it); the transcript is logged
  after \<open>> Query: \<close>; and the only utterance enqueued is the reply that \<open>query_llm\<close>
  returns, or the loop's error message when it raises, so the transcript itself is not
  spoken.
\<close>

theorem final_transcript_dispatched:
  assumes "in_command_window s"
    and "read_result e = Inr data" and "accept_result e = Inr is_final"
    and "partial_result e = Inr pr"
    and "is_final \<or>
       (COMMAND_TIMEOUT < time_at_131 e -
          (if dict_get pr ''partial'' [] \<noteq> [] then time_at_121 e else last_word_time s)
        \<and> force_accept_result e = Inr b)"
    and "final_result e = Inr fr" and "dict_get fr ''text'' [] = c" and "c \<noteq> []"
  shows "llm_requests (loop_iteration e s) = llm_requests s @
           [\<lparr> endpoint = LLM_ENDPOINT,
              json_payload = \<lparr> model = LLM_MODEL, prompt = c, stream = False \<rparr>,
              timeout = 60 \<rparr>]
     \<and> log_textbox (loop_iteration e s) = log_textbox s @
           (if is_final then [] else ''Timeout reached, processing command...'' @ [newline]) @
           ''> Query: '' @ c @ [newline] @ ''Sending query to LLM...'' @ [newline] @
           (case fst (query_llm c (post_result e) s) of
              Inl x \<Rightarrow> ''Error during listening loop: '' @ str_exn x @ [newline]
            | Inr reply \<Rightarrow> if reply \<noteq> [] then ''LLM Response: '' @ reply @ [newline] else [])
     \<and> speak_queue (loop_iteration e s) = speak_queue s @
           (case fst (query_llm c (post_result e) s) of
              Inl x \<Rightarrow> [''Error during listening loop: '' @ str_exn x]
            | Inr reply \<Rightarrow> if reply \<noteq> [] then [reply] else [])"
  using dispatch_iteration(1-3) [OF assms] by (simp add: llm_request_for_def)

theorem final_transcript_dispatched_witness:
  "in_command_window window_app
   \<and> read_result final_env = Inr [1, 2, 3] \<and> accept_result final_env = Inr True
   \<and> partial_result final_env = Inr [''partial'' \<mapsto> []]
   \<and> final_result final_env = Inr [''text'' \<mapsto> ''what time is it'']
   \<and> dict_get [''text'' \<mapsto> ''what time is it''] ''text'' [] = ''what time is it''
   \<and> ''what time is it'' \<noteq> []
   \<and> llm_requests (loop_iteration final_env window_app) =
        [\<lparr> endpoint = LLM_ENDPOINT,
           json_payload = \<lparr> model = LLM_MODEL, prompt = ''what time is it'', stream = False \<rparr>,
           timeout = 60 \<rparr>]
   \<and> log_textbox (loop_iteration final_env window_app) = log_textbox window_app @
        ''> Query: what time is it'' @ [newline] @ ''Sending query to LLM...'' @ [newline] @
        ''LLM Response: It is noon.'' @ [newline]
   \<and> speak_queue (loop_iteration final_env window_app) =
        speak_queue window_app @ [''It is noon.'']"
proof -
  have h: "in_command_window window_app"
    "read_result final_env = Inr [1, 2, 3]" "accept_result final_env = Inr True"
    "partial_result final_env = Inr [''partial'' \<mapsto> []]"
    "True \<or> (COMMAND_TIMEOUT < time_at_131 final_env -
          (if dict_get [''partial'' \<mapsto> []] ''partial'' [] \<noteq> [] then time_at_121 final_env
           else last_word_time window_app)
        \<and> force_accept_result final_env = Inr False)"
    "final_result final_env = Inr [''text'' \<mapsto> ''what time is it'']"
    "dict_get [''text'' \<mapsto> ''what time is it''] ''text'' [] = ''what time is it''"
    "''what time is it'' \<noteq> []"
    by (simp_all add: scenario_defs window_app_simps dict_get_def)
  have p: "post_result final_env = Inr answer_response"
    by (simp add: final_env_def quiet_env_def)
  have l: "llm_requests window_app = []"
    by (simp add: window_app_simps)
  show ?thesis
    using final_transcript_dispatched [OF h] h(1-4,6-8) l
    by (simp add: p answer_reply)
qed

text \<open>
  Claim C3, as the specification words it, promises the handler a trimmed string. No
  line of the program trims: a final result whose text has blanks around it is logged
  and posted with them. The recognizer's text \<open>''  what time is it ''\<close> is not trimmed,
  its trimmed form is \<open>''what time is it''\<close>, and the prompt posted is the former.
\<close>

theorem untrimmed_transcript_counterexample:
  "in_command_window window_app
   \<and> accept_result padded_env = Inr True
   \<and> final_result padded_env = Inr [''text'' \<mapsto> ''  what time is it '']
   \<and> \<not> spec_trimmed ''  what time is it ''
   \<and> spec_strip ''  what time is it '' = ''what time is it''
   \<and> map (\<lambda>r. prompt (json_payload r)) (llm_requests (loop_iteration padded_env window_app)) =
        [''  what time is it '']
   \<and> log_textbox (loop_iteration padded_env window_app) = log_textbox window_app @
        ''> Query:   what time is it '' @ [newline] @ ''Sending query to LLM...'' @ [newline] @
        ''LLM Response: It is noon.'' @ [newline]"
proof -
  have h: "in_command_window window_app"
    "read_result padded_env = Inr [1, 2, 3]" "accept_result padded_env = Inr True"
    "partial_result padded_env = Inr [''partial'' \<mapsto> []]"
    "True \<or> (COMMAND_TIMEOUT < time_at_131 padded_env -
          (if dict_get [''partial'' \<mapsto> []] ''partial'' [] \<noteq> [] then time_at_121 padded_env
           else last_word_time window_app)
        \<and> force_accept_result padded_env = Inr False)"
    "final_result padded_env = Inr [''text'' \<mapsto> ''  what time is it '']"
    "dict_get [''text'' \<mapsto> ''  what time is it ''] ''text'' [] = ''  what time is it ''"
    "''  what time is it '' \<noteq> []"
    by (simp_all add: padded_env_def scenario_defs window_app_simps dict_get_def)
  have p: "post_result padded_env = Inr answer_response"
    by (simp add: padded_env_def final_env_def quiet_env_def)
  have l: "llm_requests window_app = []"
    by (simp add: window_app_simps)
  have t: "spec_strip ''  what time is it '' = ''what time is it''"
    by (simp add: spec_strip_def is_space_def)
  show ?thesis
    using dispatch_iteration(1,3) [OF h] h(1,3,6) l t
    by (simp add: p answer_reply llm_request_for_def spec_trimmed_def)
qed

section \<open>A failing request\<close>

lemma http_error_msg_failure:
  assumes "400 \<le> status_code r" and "status_code r < 600"
  shows "http_error_msg r \<noteq> []" and "prefix (str_nat (status_code r)) (http_error_msg r)"
  using assms by (auto simp: http_error_msg_def)

lemma llm_try_failure:
  assumes "p = Inl (RequestException m) \<or>
           (p = Inr resp \<and> 400 \<le> status_code resp \<and> status_code resp < 600 \<and>
            m = http_error_msg resp)"
  shows "llm_try p = Inl (RequestException m)"
  using assms http_error_msg_failure(1) [of resp]
  by (auto simp: llm_try_def raise_for_status_def)

text \<open>
  Claim C4, as stated, fails for a status outside 2xx for which \<open>raise_for_status\<close> does
  not raise: a status 300 with a JSON body is returned as an ordinary reply, with no
  error string and nothing printed.
\<close>

theorem llm_status_300_counterexample:
  "status_code redirect_response = 300
   \<and> \<not> (200 \<le> status_code redirect_response \<and> status_code redirect_response < 300)
   \<and> fst (query_llm ''what time is it'' (Inr redirect_response) window_app) = Inr ''ok''
   \<and> console (snd (query_llm ''what time is it'' (Inr redirect_response) window_app)) =
       console window_app
   \<and> \<not> sublist ''300'' ''ok''"
  by (simp add: query_llm_def llm_try_def raise_for_status_def http_error_msg_def
      redirect_response_def dict_get_def ui_defs Let_def sublist_Cons_right)

text \<open>
  Claim C4, amended. When the request ends in a transport error raised as a
  RequestException, or in a 4xx or 5xx status, \<open>query_llm\<close> returns the string
  \<open>Error connecting to LLM: \<close> followed by the text of the exception, which for a status
  starts with the status code, and prints it. The iteration that dispatched the
  transcript logs and speaks that string as the reply, ends outside the command window
  and leaves the listening flag as it was.
\<close>

theorem llm_failure_is_reported:
  assumes "in_command_window s"
    and "read_result e = Inr data" and "accept_result e = Inr is_final"
    and "partial_result e = Inr pr"
    and "is_final \<or>
       (COMMAND_TIMEOUT < time_at_131 e -
          (if dict_get pr ''partial'' [] \<noteq> [] then time_at_121 e else last_word_time s)
        \<and> force_accept_result e = Inr b)"
    and "final_result e = Inr fr" and "dict_get fr ''text'' [] = c" and "c \<noteq> []"
    and fail: "post_result e = Inl (RequestException m) \<or>
           (post_result e = Inr resp \<and> 400 \<le> status_code resp \<and> status_code resp < 600 \<and>
            m = http_error_msg resp)"
  shows "fst (query_llm c (post_result e) s0) = Inr (''Error connecting to LLM: '' @ m)
     \<and> console (snd (query_llm c (post_result e) s0)) =
         console s0 @ [''Error connecting to LLM: '' @ m]
     \<and> (post_result e = Inr resp \<longrightarrow> prefix (str_nat (status_code resp)) m)
     \<and> log_textbox (loop_iteration e s) = log_textbox s @
           (if is_final then [] else ''Timeout reached, processing command...'' @ [newline]) @
           ''> Query: '' @ c @ [newline] @ ''Sending query to LLM...'' @ [newline] @
           ''LLM Response: Error connecting to LLM: '' @ m @ [newline]
     \<and> speak_queue (loop_iteration e s) = speak_queue s @ [''Error connecting to LLM: '' @ m]
     \<and> console (loop_iteration e s) = console s @ [''Error connecting to LLM: '' @ m]
     \<and> \<not> in_command_window (loop_iteration e s)
     \<and> is_listening (loop_iteration e s) = is_listening s
     \<and> status_label (loop_iteration e s) = ''Status: '' @ listening_status"
proof -
  have t: "llm_try (post_result e) = Inl (RequestException m)"
    using fail by (rule llm_try_failure)
  have q: "\<And>s1. fst (query_llm c (post_result e) s1) = Inr (''Error connecting to LLM: '' @ m)"
    by (simp add: query_llm_result t)
  have c0: "console (snd (query_llm c (post_result e) s0)) =
         console s0 @ [''Error connecting to LLM: '' @ m]"
    by (simp add: query_llm_def t ui_defs Let_def)
  have pre: "post_result e = Inr resp \<longrightarrow> prefix (str_nat (status_code resp)) m"
    using fail http_error_msg_failure(2) [of resp] by auto
  note d = dispatch_iteration [OF assms(1-8)]
  show ?thesis
    using d(2,3,4,5,8,9) c0 pre by (simp add: q t)
qed

theorem llm_failure_is_reported_witness:
  "in_command_window window_app
   \<and> read_result failing_env = Inr [1, 2, 3] \<and> accept_result failing_env = Inr True
   \<and> partial_result failing_env = Inr [''partial'' \<mapsto> []]
   \<and> final_result failing_env = Inr [''text'' \<mapsto> ''what time is it'']
   \<and> post_result failing_env = Inr server_error_response
   \<and> status_code server_error_response = 500
   \<and> http_error_msg server_error_response =
       ''500 Server Error: Internal Server Error for url: http://localhost:11434/''
   \<and> fst (query_llm ''what time is it'' (post_result failing_env) window_app) =
       Inr (''Error connecting to LLM: '' @ http_error_msg server_error_response)
   \<and> speak_queue (loop_iteration failing_env window_app) = speak_queue window_app @
       [''Error connecting to LLM: '' @ http_error_msg server_error_response]
   \<and> console (loop_iteration failing_env window_app) =
       [''Error connecting to LLM: '' @ http_error_msg server_error_response]
   \<and> \<not> in_command_window (loop_iteration failing_env window_app)
   \<and> is_listening (loop_iteration failing_env window_app)"
proof -
  have h: "in_command_window window_app"
    "read_result failing_env = Inr [1, 2, 3]" "accept_result failing_env = Inr True"
    "partial_result failing_env = Inr [''partial'' \<mapsto> []]"
    "True \<or> (COMMAND_TIMEOUT < time_at_131 failing_env -
          (if dict_get [''partial'' \<mapsto> []] ''partial'' [] \<noteq> [] then time_at_121 failing_env
           else last_word_time window_app)
        \<and> force_accept_result failing_env = Inr False)"
    "final_result failing_env = Inr [''text'' \<mapsto> ''what time is it'']"
    "dict_get [''text'' \<mapsto> ''what time is it''] ''text'' [] = ''what time is it''"
    "''what time is it'' \<noteq> []"
    "post_result failing_env = Inl (RequestException (http_error_msg server_error_response)) \<or>
       (post_result failing_env = Inr server_error_response
        \<and> 400 \<le> status_code server_error_response
        \<and> status_code server_error_response < 600
        \<and> http_error_msg server_error_response = http_error_msg server_error_response)"
    by (simp_all add: scenario_defs window_app_simps dict_get_def)
  have m: "http_error_msg server_error_response =
       ''500 Server Error: Internal Server Error for url: http://localhost:11434/''"
    by (simp add: http_error_msg_def server_error_response_def LLM_ENDPOINT_def
        str_nat.simps digit_char_def)
  have g: "post_result failing_env = Inr server_error_response"
    "status_code server_error_response = 500"
    "console window_app = []" "is_listening window_app"
    by (simp_all add: scenario_defs window_app_simps)
  show ?thesis
    using llm_failure_is_reported [OF h, of window_app] h(1-4,6) g m by simp
qed

section \<open>The timeout\<close>

lemma silent_timeout_iteration:
  assumes win: "in_command_window s"
    and rd: "read_result e = Inr data" and ac: "accept_result e = Inr False"
    and pa: "partial_result e = Inr pr"
    and late: "COMMAND_TIMEOUT < time_at_131 e -
          (if dict_get pr ''partial'' [] \<noteq> [] then time_at_121 e else last_word_time s)"
    and fa: "force_accept_result e = Inr b"
    and fr: "final_result e = Inr fr" and tx: "dict_get fr ''text'' [] = []"
  shows "\<not> in_command_window (loop_iteration e s)"
    and "is_listening (loop_iteration e s) = is_listening s"
    and "command_audio_buffer (loop_iteration e s) = []"
    and "status_label (loop_iteration e s) = ''Status: '' @ listening_status"
    and "recognizer_calls (loop_iteration e s) =
           recognizer_calls s @ [AcceptWaveform data, PartialResult,
             AcceptWaveform (concat (command_audio_buffer s @ [data])), Result]"
    and "llm_requests (loop_iteration e s) = llm_requests s"
    and "speak_queue (loop_iteration e s) =
           speak_queue s @ [''I heard something, but could not understand.'']"
    and "log_textbox (loop_iteration e s) = log_textbox s @
           ''Timeout reached, processing command...'' @ [newline] @
           ''I heard something, but could not understand.'' @ [newline]"
proof -
  define s4 where "s4 = (if dict_get pr ''partial'' [] \<noteq> []
       then (call_recognizer PartialResult (call_recognizer (AcceptWaveform data) s))
              \<lparr>command_audio_buffer := command_audio_buffer s @ [data],
               last_word_time := time_at_121 e\<rparr>
       else (call_recognizer PartialResult (call_recognizer (AcceptWaveform data) s))
              \<lparr>command_audio_buffer := command_audio_buffer s @ [data]\<rparr>)"
  have s4f: "is_listening s4 = is_listening s"
    "command_audio_buffer s4 = command_audio_buffer s @ [data]"
    "recognizer_calls s4 = recognizer_calls s @ [AcceptWaveform data, PartialResult]"
    "log_textbox s4 = log_textbox s" "speak_queue s4 = speak_queue s"
    "llm_requests s4 = llm_requests s"
    by (simp_all add: s4_def call_recognizer_def)
  have lt: "loop_try e s = timeout_branch e s4"
    using win rd ac pa late
    by (auto simp: loop_try_def window_branch_def Let_def s4_def call_recognizer_def)
  have tb: "timeout_branch e s4 =
      (Inr (), update_status listening_status
         ((log_message ''I heard something, but could not understand.'' True
            (call_recognizer Result
              (call_recognizer (AcceptWaveform (concat (command_audio_buffer s4)))
                (log_message ''Timeout reached, processing command...'' False s4))))
          \<lparr>in_command_window := False, command_audio_buffer := []\<rparr>))"
    using fa fr tx s4f(2)
    by (simp add: timeout_branch_def Let_def np_concatenate_def log_message_def
        call_recognizer_def speak_def)
  have li: "loop_iteration e s = update_status listening_status
         ((log_message ''I heard something, but could not understand.'' True
            (call_recognizer Result
              (call_recognizer (AcceptWaveform (concat (command_audio_buffer s4)))
                (log_message ''Timeout reached, processing command...'' False s4))))
          \<lparr>in_command_window := False, command_audio_buffer := []\<rparr>)"
    by (simp add: loop_iteration_def lt tb)
  show "\<not> in_command_window (loop_iteration e s)"
    and "is_listening (loop_iteration e s) = is_listening s"
    and "command_audio_buffer (loop_iteration e s) = []"
    and "status_label (loop_iteration e s) = ''Status: '' @ listening_status"
    and "recognizer_calls (loop_iteration e s) =
           recognizer_calls s @ [AcceptWaveform data, PartialResult,
             AcceptWaveform (concat (command_audio_buffer s @ [data])), Result]"
    and "llm_requests (loop_iteration e s) = llm_requests s"
    and "speak_queue (loop_iteration e s) =
           speak_queue s @ [''I heard something, but could not understand.'']"
    and "log_textbox (loop_iteration e s) = log_textbox s @
           ''Timeout reached, processing command...'' @ [newline] @
           ''I heard something, but could not understand.'' @ [newline]"
    using s4f by (simp_all add: li ui_defs)
qed

text \<open>
  Claim C2, as stated, fails at the boundary: with exactly \<open>COMMAND_TIMEOUT\<close> seconds
  since \<open>last_word_time\<close> the comparison of line 131 is false, and the iteration stays
  inside the command window without feeding the buffer or logging anything.
\<close>

theorem timeout_boundary_counterexample:
  "in_command_window window_app
   \<and> read_result boundary_env = Inr [1, 2, 3]
   \<and> accept_result boundary_env = Inr False
   \<and> partial_result boundary_env = Inr [''partial'' \<mapsto> []]
   \<and> COMMAND_TIMEOUT \<le> time_at_131 boundary_env - last_word_time window_app
   \<and> in_command_window (loop_iteration boundary_env window_app)
   \<and> command_audio_buffer (loop_iteration boundary_env window_app) = [[1, 2, 3]]
   \<and> recognizer_calls (loop_iteration boundary_env window_app) =
       recognizer_calls window_app @ [AcceptWaveform [1, 2, 3], PartialResult]
   \<and> log_textbox (loop_iteration boundary_env window_app) = log_textbox window_app"
  by (simp add: window_app_simps boundary_env_def quiet_env_def COMMAND_TIMEOUT_def
      loop_iteration_def loop_try_def window_branch_def dict_get_def call_recognizer_def)

text \<open>
  Claim C2, amended. An iteration inside the command window, with no final result, an
  empty partial text and more than \<open>COMMAND_TIMEOUT\<close> seconds since \<open>last_word_time\<close>, whose
  forced feed and result decoding return and whose command handler, when called, returns:
  the buffered blocks with the current one are concatenated and fed to the recognizer,
  the result is read, a transcript with text is dispatched, an empty one yields the
  spoken notice, and in both cases the buffer is emptied and the command window left.
\<close>

theorem timeout_force_finalizes:
  assumes "in_command_window s"
    and "read_result e = Inr data" and "accept_result e = Inr False"
    and "partial_result e = Inr pr" and "dict_get pr ''partial'' [] = []"
    and "COMMAND_TIMEOUT < time_at_131 e - last_word_time s"
    and "force_accept_result e = Inr b"
    and "final_result e = Inr fr" and "dict_get fr ''text'' [] = c"
    and "c = [] \<or> fst (query_llm c (post_result e) s) = Inr reply"
  shows "\<not> in_command_window (loop_iteration e s)
     \<and> is_listening (loop_iteration e s) = is_listening s
     \<and> command_audio_buffer (loop_iteration e s) = []
     \<and> status_label (loop_iteration e s) = ''Status: '' @ listening_status
     \<and> recognizer_calls (loop_iteration e s) =
           recognizer_calls s @ [AcceptWaveform data, PartialResult,
             AcceptWaveform (concat (command_audio_buffer s @ [data])), Result]
     \<and> (c \<noteq> [] \<longrightarrow>
           llm_requests (loop_iteration e s) = llm_requests s @
             [\<lparr> endpoint = LLM_ENDPOINT,
                json_payload = \<lparr> model = LLM_MODEL, prompt = c, stream = False \<rparr>,
                timeout = 60 \<rparr>]
         \<and> speak_queue (loop_iteration e s) =
             speak_queue s @ (if reply \<noteq> [] then [reply] else [])
         \<and> log_textbox (loop_iteration e s) = log_textbox s @
             ''Timeout reached, processing command...'' @ [newline] @
             ''> Query: '' @ c @ [newline] @ ''Sending query to LLM...'' @ [newline] @
             (if reply \<noteq> [] then ''LLM Response: '' @ reply @ [newline] else []))
     \<and> (c = [] \<longrightarrow>
           llm_requests (loop_iteration e s) = llm_requests s
         \<and> speak_queue (loop_iteration e s) =
             speak_queue s @ [''I heard something, but could not understand.'']
         \<and> log_textbox (loop_iteration e s) = log_textbox s @
             ''Timeout reached, processing command...'' @ [newline] @
             ''I heard something, but could not understand.'' @ [newline])"
proof (cases "c = []")
  case True
  have late: "COMMAND_TIMEOUT < time_at_131 e -
          (if dict_get pr ''partial'' [] \<noteq> [] then time_at_121 e else last_word_time s)"
    using assms(5,6) by simp
  have tx: "dict_get fr ''text'' [] = []"
    using assms(9) True by simp
  note st = silent_timeout_iteration [OF assms(1-4) late assms(7,8) tx]
  show ?thesis using True st by simp
next
  case False
  with assms(10) have q: "fst (query_llm c (post_result e) s) = Inr reply" by simp
  have path: "False \<or>
       (COMMAND_TIMEOUT < time_at_131 e -
          (if dict_get pr ''partial'' [] \<noteq> [] then time_at_121 e else last_word_time s)
        \<and> force_accept_result e = Inr b)"
    using assms(5,6,7) by simp
  note d = dispatch_iteration [OF assms(1-4) path assms(8,9) False]
  show ?thesis
    using False d(1-7,9) by (simp add: q llm_request_for_def)
qed

theorem timeout_force_finalizes_witness:
  "in_command_window window_app
   \<and> read_result timeout_env = Inr [1, 2, 3] \<and> accept_result timeout_env = Inr False
   \<and> partial_result timeout_env = Inr [''partial'' \<mapsto> []]
   \<and> COMMAND_TIMEOUT < time_at_131 timeout_env - last_word_time window_app
   \<and> force_accept_result timeout_env = Inr False
   \<and> final_result timeout_env = Inr [''text'' \<mapsto> ''what time is it'']
   \<and> fst (query_llm ''what time is it'' (post_result timeout_env) window_app) = Inr ''It is noon.''
   \<and> \<not> in_command_window (loop_iteration timeout_env window_app)
   \<and> command_audio_buffer (loop_iteration timeout_env window_app) = []
   \<and> recognizer_calls (loop_iteration timeout_env window_app) =
       recognizer_calls window_app @ [AcceptWaveform [1, 2, 3], PartialResult,
         AcceptWaveform [1, 2, 3], Result]
   \<and> speak_queue (loop_iteration timeout_env window_app) =
       speak_queue window_app @ [''It is noon.'']
   \<and> final_result silent_timeout_env = Inr [''text'' \<mapsto> []]
   \<and> COMMAND_TIMEOUT < time_at_131 silent_timeout_env - last_word_time window_app
   \<and> \<not> in_command_window (loop_iteration silent_timeout_env window_app)
   \<and> command_audio_buffer (loop_iteration silent_timeout_env window_app) = []
   \<and> speak_queue (loop_iteration silent_timeout_env window_app) =
       speak_queue window_app @ [''I heard something, but could not understand.'']"
proof -
  have a: "in_command_window window_app"
    "read_result timeout_env = Inr [1, 2, 3]" "accept_result timeout_env = Inr False"
    "partial_result timeout_env = Inr [''partial'' \<mapsto> []]"
    "dict_get [''partial'' \<mapsto> []] ''partial'' [] = []"
    "COMMAND_TIMEOUT < time_at_131 timeout_env - last_word_time window_app"
    "force_accept_result timeout_env = Inr False"
    "final_result timeout_env = Inr [''text'' \<mapsto> ''what time is it'']"
    "dict_get [''text'' \<mapsto> ''what time is it''] ''text'' [] = ''what time is it''"
    by (simp_all add: scenario_defs window_app_simps dict_get_def COMMAND_TIMEOUT_def)
  have q: "fst (query_llm ''what time is it'' (post_result timeout_env) window_app) =
      Inr ''It is noon.''"
    by (simp add: timeout_env_def quiet_env_def answer_reply)
  then have a10: "''what time is it'' = [] \<or>
      fst (query_llm ''what time is it'' (post_result timeout_env) window_app) = Inr ''It is noon.''"
    by simp
  have b: "in_command_window window_app"
    "read_result silent_timeout_env = Inr [1, 2, 3]"
    "accept_result silent_timeout_env = Inr False"
    "partial_result silent_timeout_env = Inr [''partial'' \<mapsto> []]"
    "dict_get [''partial'' \<mapsto> []] ''partial'' [] = []"
    "COMMAND_TIMEOUT < time_at_131 silent_timeout_env - last_word_time window_app"
    "force_accept_result silent_timeout_env = Inr False"
    "final_result silent_timeout_env = Inr [''text'' \<mapsto> []]"
    "dict_get [''text'' \<mapsto> []] ''text'' [] = []"
    by (simp_all add: scenario_defs window_app_simps dict_get_def COMMAND_TIMEOUT_def)
  have b10: "[] = [] \<or> fst (query_llm [] (post_result silent_timeout_env) window_app) = Inr []"
    by simp
  have w: "command_audio_buffer window_app = []"
    by (simp add: window_app_simps)
  show ?thesis
    using timeout_force_finalizes [OF a a10] timeout_force_finalizes [OF b b10]
      a(1-4,6-8) b(6,8) q w
    by simp
qed

section \<open>The speech queue\<close>

lemma played_simps:
  "played [] = []" "played (t # ts) = PlayBegin t # PlayEnd t # played ts"
  by (simp_all add: played_def)

lemma speaker_iteration_ok:
  assumes "say_result e = Inr ()" and "run_result e = Inr ()" and "engine_pending s = []"
  shows "speaker_iteration e t s = s\<lparr>audio_out := audio_out s @ [PlayBegin t, PlayEnd t]\<rparr>"
  using assms by (simp add: speaker_iteration_def Let_def)

lemma speaker_worker_fifo:
  assumes "\<forall>e \<in> set envs. say_result e = Inr () \<and> run_result e = Inr ()"
    and "length (speak_queue s) \<le> length envs"
    and "engine_pending s = []"
  shows "audio_out (speaker_thread_worker envs s) = audio_out s @ played (speak_queue s)
       \<and> speak_queue (speaker_thread_worker envs s) = []
       \<and> console (speaker_thread_worker envs s) = console s"
  using assms
proof (induction envs arbitrary: s)
  case Nil
  then show ?case by (simp add: played_simps)
next
  case (Cons e es)
  show ?case
  proof (cases "speak_queue s")
    case Nil
    then show ?thesis by (simp add: played_simps)
  next
    case (Cons t q)
    let ?s1 = "speaker_iteration e t (s\<lparr>speak_queue := q\<rparr>)"
    have it: "?s1 = s\<lparr>speak_queue := q, audio_out := audio_out s @ [PlayBegin t, PlayEnd t]\<rparr>"
      using Cons.prems by (simp add: speaker_iteration_ok)
    have "audio_out (speaker_thread_worker es ?s1) = audio_out ?s1 @ played (speak_queue ?s1)
       \<and> speak_queue (speaker_thread_worker es ?s1) = []
       \<and> console (speaker_thread_worker es ?s1) = console ?s1"
      using Cons.prems Cons by (intro Cons.IH) (simp_all add: it)
    then show ?thesis
      using Cons by (simp add: it played_simps)
  qed
qed

lemma played_append: "played (xs @ ys) = played xs @ played ys"
  by (simp add: played_def)

lemma speaker_worker_no_overlap:
  "\<exists>ts. audio_out (speaker_thread_worker envs s) = audio_out s @ played ts"
proof (induction envs arbitrary: s)
  case Nil
  have "audio_out s = audio_out s @ played []" by (simp add: played_simps)
  then show ?case by (simp del: append_Nil2) blast
next
  case (Cons e es)
  show ?case
  proof (cases "speak_queue s")
    case Nil
    have "audio_out s = audio_out s @ played []" by (simp add: played_simps)
    with Nil show ?thesis by (simp del: append_Nil2) blast
  next
    case (Cons t q)
    let ?s1 = "speaker_iteration e t (s\<lparr>speak_queue := q\<rparr>)"
    have "\<exists>us. audio_out ?s1 = audio_out s @ played us"
    proof (cases "say_result e")
      case (Inl x)
      have "audio_out s = audio_out s @ played []" by (simp add: played_simps)
      with Inl show ?thesis by (simp add: speaker_iteration_def del: append_Nil2) blast
    next
      case say: (Inr u)
      show ?thesis
      proof (cases "run_result e")
        case (Inl x)
        have "audio_out s = audio_out s @ played []" by (simp add: played_simps)
        with Inl say show ?thesis
          by (simp add: speaker_iteration_def Let_def del: append_Nil2) blast
      next
        case (Inr v)
        have "audio_out ?s1 = audio_out s @ played (engine_pending s @ [t])"
          using say Inr by (simp add: speaker_iteration_def Let_def played_def)
        then show ?thesis by blast
      qed
    qed
    then obtain us where us: "audio_out ?s1 = audio_out s @ played us" by blast
    from Cons.IH [of ?s1] obtain ts
      where "audio_out (speaker_thread_worker es ?s1) = audio_out ?s1 @ played ts" by blast
    with us have "audio_out (speaker_thread_worker es ?s1) = audio_out s @ played (us @ ts)"
      by (simp add: played_append)
    with Cons show ?thesis by auto
  qed
qed

text \<open>
  Claim C5. \<open>speak\<close> appends to the queue and the worker takes from its head, one
  utterance per iteration, calling \<open>runAndWait\<close> for each before it takes the next. With
  a synthesizer whose calls return and enough iterations, enqueuing \<open>a\<close> then \<open>b\<close> plays
  what was queued before, then \<open>a\<close> from beginning to end, then \<open>b\<close>, and leaves the queue
  empty. Whatever the synthesizer answers, the audio played is a sequence of whole
  utterances: no utterance begins before the previous one has ended. The worker is
  modelled on its own; that \<open>runAndWait\<close> returns only when playback is over, and that
  the queue is safe to share between threads, is taken from the libraries.
\<close>

theorem speech_queue_fifo:
  assumes "\<forall>e \<in> set envs. say_result e = Inr () \<and> run_result e = Inr ()"
    and "length (speak_queue s) + 2 \<le> length envs"
    and "engine_pending s = []"
  shows "speak_queue (speak b (speak a s)) = speak_queue s @ [a, b]
     \<and> audio_out (speaker_thread_worker envs (speak b (speak a s))) =
         audio_out s @ played (speak_queue s) @ [PlayBegin a, PlayEnd a, PlayBegin b, PlayEnd b]
     \<and> speak_queue (speaker_thread_worker envs (speak b (speak a s))) = []
     \<and> (\<exists>ts. audio_out (speaker_thread_worker envs2 s2) = audio_out s2 @ played ts)"
proof -
  have q: "speak_queue (speak b (speak a s)) = speak_queue s @ [a, b]"
    by (simp add: speak_def)
  have "audio_out (speaker_thread_worker envs (speak b (speak a s))) =
          audio_out (speak b (speak a s)) @ played (speak_queue (speak b (speak a s)))
       \<and> speak_queue (speaker_thread_worker envs (speak b (speak a s))) = []
       \<and> console (speaker_thread_worker envs (speak b (speak a s))) =
          console (speak b (speak a s))"
    using assms by (intro speaker_worker_fifo) (simp_all add: speak_def)
  moreover have "played (speak_queue s @ [a, b]) =
      played (speak_queue s) @ [PlayBegin a, PlayEnd a, PlayBegin b, PlayEnd b]"
    by (simp add: played_def)
  ultimately show ?thesis
    using q speaker_worker_no_overlap [of envs2 s2] by (simp add: speak_def)
qed

theorem speech_queue_fifo_witness:
  "say_result ok_tts = Inr () \<and> run_result ok_tts = Inr ()
   \<and> length (speak_queue init_app) + 2 \<le> length [ok_tts, ok_tts, ok_tts]
   \<and> engine_pending init_app = []
   \<and> speak_queue (speak ''B'' (speak ''A'' init_app)) = [''A'', ''B'']
   \<and> audio_out (speaker_thread_worker [ok_tts, ok_tts, ok_tts] (speak ''B'' (speak ''A'' init_app))) =
       [PlayBegin ''A'', PlayEnd ''A'', PlayBegin ''B'', PlayEnd ''B'']
   \<and> speak_queue (speaker_thread_worker [ok_tts, ok_tts, ok_tts]
        (speak ''B'' (speak ''A'' init_app))) = []"
proof -
  have h: "\<forall>e \<in> set [ok_tts, ok_tts, ok_tts]. say_result e = Inr () \<and> run_result e = Inr ()"
    "length (speak_queue init_app) + 2 \<le> length [ok_tts, ok_tts, ok_tts]"
    "engine_pending init_app = []"
    by (simp_all add: ok_tts_def init_app_def)
  have i: "speak_queue init_app = []" "audio_out init_app = []"
    by (simp_all add: init_app_def)
  have o: "say_result ok_tts = Inr ()" "run_result ok_tts = Inr ()"
    by (simp_all add: ok_tts_def)
  show ?thesis
    using speech_queue_fifo [OF h, of "''B''" "''A''"] h(2,3) i o
    by (simp add: played_simps del: speaker_thread_worker.simps)
qed

end
